theory Spec2Isabelle
  imports Complex_Main "HOL-Library.Sublist" "HOL-Library.Word"
begin

section \<open>JavaScript strings and object lookups\<close>

text \<open>
  A JavaScript string is a sequence of UTF-16 code units. The model uses \<^typ>\<open>string\<close>
  and reads every \<^typ>\<open>char\<close> as the code unit of the same number, so it covers the texts
  whose code units are below 256 (ASCII and Latin-1); \<open>length\<close> counts code units as
  \<open>.length\<close> does.
\<close>

text \<open>\<open>s.includes(kw)\<close>: \<open>kw\<close> occurs in \<open>s\<close> as a contiguous substring.\<close>

fun str_includes :: "string \<Rightarrow> string \<Rightarrow> bool" where
  "str_includes [] kw = (kw = [])"
| "str_includes (c # cs) kw = (prefix kw (c # cs) \<or> str_includes cs kw)"

text \<open>
  \<open>s.toLowerCase()\<close> on code units below 256: the letters A to Z and the Latin-1 capitals
  U+00C0 to U+00DE (without the multiplication sign U+00D7) move up by 32, every other code
  unit stays.
\<close>

definition toLowerCase_unit :: "char \<Rightarrow> char" where
  "toLowerCase_unit c =
     (let n = (of_char c :: nat)
      in if (65 \<le> n \<and> n \<le> 90) \<or> (192 \<le> n \<and> n \<le> 222 \<and> n \<noteq> 215)
         then char_of (n + 32) else c)"

definition toLowerCase :: "string \<Rightarrow> string" where
  "toLowerCase s = map toLowerCase_unit s"

text \<open>
  \<open>s.trim()\<close>: the white space and line terminators of ECMAScript below 256 are TAB, LF,
  VT, FF, CR, SPACE and NO-BREAK SPACE.
\<close>

definition is_js_space :: "char \<Rightarrow> bool" where
  "is_js_space c = ((of_char c :: nat) \<in> {9, 10, 11, 12, 13, 32, 160})"

definition trim :: "string \<Rightarrow> string" where
  "trim s = rev (dropWhile is_js_space (rev (dropWhile is_js_space s)))"

text \<open>\<open>s.replace(/c/g, r)\<close> for a single character \<open>c\<close>.\<close>

definition replace_all :: "char \<Rightarrow> string \<Rightarrow> string \<Rightarrow> string" where
  "replace_all c r s = concat (map (\<lambda>x. if x = c then r else [x]) s)"

text \<open>\<open>lines.join(sep)\<close>.\<close>

fun join :: "string \<Rightarrow> string list \<Rightarrow> string" where
  "join sep [] = []"
| "join sep [l] = l"
| "join sep (l # m # ls) = l @ sep @ join sep (m # ls)"

text \<open>
  The decimal text of a non-negative integer. A template literal prints a number this way
  as long as it is an integer below ten to the power 21.
\<close>

definition digit :: "nat \<Rightarrow> char" where
  "digit d = ''0123456789'' ! d"

fun string_of_nat :: "nat \<Rightarrow> string" where
  "string_of_nat n =
     (if n < 10 then [digit n] else string_of_nat (n div 10) @ [digit (n mod 10)])"

declare string_of_nat.simps [simp del]

text \<open>
  The lookup tables of the program are object literals. \<open>obj[k]\<close> on an object literal
  finds the own property \<open>k\<close>, and otherwise walks to \<open>Object.prototype\<close>, whose members
  (functions, and the accessor \<open>__proto__\<close>) are all truthy; only a name found in neither
  place gives \<open>undefined\<close>.
\<close>

definition object_prototype_members :: "string list" where
  "object_prototype_members =
     [''constructor'', ''__defineGetter__'', ''__defineSetter__'', ''hasOwnProperty'',
      ''__lookupGetter__'', ''__lookupSetter__'', ''isPrototypeOf'',
      ''propertyIsEnumerable'', ''toString'', ''valueOf'', ''__proto__'',
      ''toLocaleString'']"

datatype 'a js_lookup = Own 'a | Inherited string | Absent

definition js_get :: "(string \<times> 'a) list \<Rightarrow> string \<Rightarrow> 'a js_lookup" where
  "js_get obj k =
     (case map_of obj k of
        Some v \<Rightarrow> Own v
      | None \<Rightarrow> if k \<in> set object_prototype_members then Inherited k else Absent)"

section \<open>Workflow steps\<close>

text \<open>
  The \<open>id\<close> of a step is a number. The model takes the safe non-negative integers,
  \<open>0\<close> to \<open>2 ^ 53 - 1\<close>: each of them is a number of JavaScript, and no arithmetic is
  done on an id.
\<close>

record step =
  step_id :: "53 word"
  step_name :: string
  step_description :: string
  step_type :: string

section \<open>Diagram generator\<close>

record shape =
  shape_open :: string
  shape_close :: string

definition shapes :: "(string \<times> shape) list" where
  "shapes =
     [(''trigger'', \<lparr>shape_open = ''(['', shape_close = ''])''\<rparr>),
      (''end'', \<lparr>shape_open = ''(['', shape_close = ''])''\<rparr>),
      (''decision'', \<lparr>shape_open = ''{'', shape_close = ''}''\<rparr>),
      (''user_action'', \<lparr>shape_open = ''['', shape_close = '']''\<rparr>),
      (''user_input'', \<lparr>shape_open = ''[/'', shape_close = ''/]''\<rparr>),
      (''system_action'', \<lparr>shape_open = ''[['', shape_close = '']]''\<rparr>),
      (''system_check'', \<lparr>shape_open = ''{{'', shape_close = ''}}''\<rparr>),
      (''database_query'', \<lparr>shape_open = ''[('', shape_close = '')]''\<rparr>),
      (''database_write'', \<lparr>shape_open = ''[('', shape_close = '')]''\<rparr>),
      (''notification'', \<lparr>shape_open = ''>'', shape_close = '']''\<rparr>),
      (''navigation'', \<lparr>shape_open = ''['', shape_close = '']''\<rparr>),
      (''display'', \<lparr>shape_open = ''['', shape_close = '']''\<rparr>),
      (''logging'', \<lparr>shape_open = ''[('', shape_close = '')]''\<rparr>),
      (''integration'', \<lparr>shape_open = ''[['', shape_close = '']]''\<rparr>),
      (''review'', \<lparr>shape_open = ''['', shape_close = '']''\<rparr>),
      (''workflow_action'', \<lparr>shape_open = ''[['', shape_close = '']]''\<rparr>),
      (''conditional'', \<lparr>shape_open = ''{'', shape_close = ''}''\<rparr>),
      (''ai_process'', \<lparr>shape_open = ''[['', shape_close = '']]''\<rparr>),
      (''data_operation'', \<lparr>shape_open = ''[['', shape_close = '']]''\<rparr>),
      (''error_handling'', \<lparr>shape_open = ''{'', shape_close = ''}''\<rparr>)]"

text \<open>
  \<open>shapes[type] || { open: '[', close: ']' }\<close>. For a type named like a member of
  \<open>Object.prototype\<close> the lookup is truthy and has neither \<open>open\<close> nor \<open>close\<close>, which
  the template literal of the node line prints as \<open>undefined\<close>.
\<close>

definition getNodeShape :: "string \<Rightarrow> shape" where
  "getNodeShape ty =
     (case js_get shapes ty of
        Own sh \<Rightarrow> sh
      | Inherited _ \<Rightarrow> \<lparr>shape_open = ''undefined'', shape_close = ''undefined''\<rparr>
      | Absent \<Rightarrow> \<lparr>shape_open = ''['', shape_close = '']''\<rparr>)"

text \<open>
  The template literal of \<open>nodeId\<close>: a safe integer is below ten to the power 21, so
  it prints in decimal.
\<close>

definition nodeId :: "53 word \<Rightarrow> string" where
  "nodeId n = ''step'' @ string_of_nat (unat n)"

definition escapeLabel :: "string \<Rightarrow> string" where
  "escapeLabel text =
     replace_all (CHR ''<'') ''<-''
       (replace_all (CHR ''>'') ''->''
         (filter (\<lambda>c. c \<notin> set ''[]{}()'')
           (replace_all (CHR 0x22) [CHR 0x27] text)))"

definition node_line :: "step \<Rightarrow> string" where
  "node_line s =
     (let shape = getNodeShape (step_type s); label = escapeLabel (step_name s)
      in ''  '' @ nodeId (step_id s) @ shape_open shape @ [CHR 0x22] @ label @ [CHR 0x22]
         @ shape_close shape)"

text \<open>
  \<open>for (let i = 0; i < workflow.length - 1; i++)\<close>, from the index \<open>i\<close> on: the lines
  the loop pushes. It runs on a workflow that is not empty.
\<close>

function connections :: "step list \<Rightarrow> nat \<Rightarrow> string list" where
  "connections workflow i =
     (if i < length workflow - 1
      then (let current = workflow ! i; next = workflow ! (i + 1)
            in if step_type current = ''decision'' \<or> step_type current = ''conditional''
               then [''  '' @ nodeId (step_id current) @ '' -->|Yes| ''
                     @ nodeId (step_id next)]
                    @ (if i + 2 < length workflow
                       then [''  '' @ nodeId (step_id current) @ '' -.->|No| ''
                             @ nodeId (step_id (workflow ! (i + 2)))]
                       else [])
               else [''  '' @ nodeId (step_id current) @ '' --> '' @ nodeId (step_id next)])
           @ connections workflow (i + 1)
      else [])"
  by pat_completeness auto
termination
  by (relation "measure (\<lambda>(workflow, i). length workflow - i)") auto

declare connections.simps [simp del]

definition style_line :: "step \<Rightarrow> string" where
  "style_line s =
     (let styleClass =
        (if step_type s = ''trigger'' \<or> step_type s = ''end'' then ''trigger''
         else if step_type s = ''decision'' \<or> step_type s = ''conditional'' then ''decision''
         else if step_type s = ''notification'' then ''notification''
         else if str_includes (step_type s) ''database'' then ''database''
         else if str_includes (step_type s) ''system'' then ''system''
         else ''action'')
      in ''  class '' @ nodeId (step_id s) @ '' '' @ styleClass)"

definition diagram_lines :: "step list \<Rightarrow> string list" where
  "diagram_lines workflow =
     [''graph TD'',
      ''  %% Style definitions'',
      ''  classDef trigger fill:#e1f5fe,stroke:#01579b'',
      ''  classDef decision fill:#fff3e0,stroke:#e65100'',
      ''  classDef action fill:#e8f5e9,stroke:#1b5e20'',
      ''  classDef notification fill:#fce4ec,stroke:#880e4f'',
      ''  classDef database fill:#f3e5f5,stroke:#4a148c'',
      ''  classDef system fill:#e3f2fd,stroke:#0d47a1'',
      '''',
      ''  %% Nodes'']
     @ map node_line workflow
     @ ['''', ''  %% Connections'']
     @ connections workflow 0
     @ ['''', ''  %% Apply styles'']
     @ map style_line workflow"

text \<open>
  The argument is \<open>None\<close> for a missing workflow (\<open>undefined\<close> or \<open>null\<close>), which
  \<open>!workflow\<close> catches.
\<close>

definition generateMermaidDiagram :: "step list option \<Rightarrow> string" where
  "generateMermaidDiagram w =
     (case w of
        None \<Rightarrow> ''graph TD'' @ [CHR 0x0A] @ ''  empty[No workflow steps]''
      | Some workflow \<Rightarrow>
          if length workflow = 0
          then ''graph TD'' @ [CHR 0x0A] @ ''  empty[No workflow steps]''
          else join [CHR 0x0A] (diagram_lines workflow))"

section \<open>Mock AI generator\<close>

text \<open>
  A property looked up in a table and used as it comes: the value of an own property, or
  the member of \<open>Object.prototype\<close> that the name reaches (a function or object, never a
  value of the table's kind).
\<close>

datatype 'a js_result = Plain 'a | Proto_member string

text \<open>The keyword table of \<open>analyzeDescription\<close>, in the order \<open>Object.entries\<close> walks it.\<close>

definition types :: "(string \<times> string list) list" where
  "types =
     [(''ecommerce'', [''shop'', ''cart'', ''buy'', ''purchase'', ''order'', ''payment'',
                      ''checkout'', ''product'']),
      (''auth'', [''login'', ''signup'', ''register'', ''password'', ''authentication'',
                 ''user account'']),
      (''booking'', [''book'', ''reserve'', ''appointment'', ''schedule'', ''calendar'']),
      (''support'', [''ticket'', ''support'', ''help'', ''issue'', ''complaint'',
                    ''customer service'']),
      (''content'', [''post'', ''blog'', ''article'', ''publish'', ''content'', ''write'']),
      (''workflow'', [''approval'', ''review'', ''process'', ''workflow'', ''task'', ''assign'']),
      (''data'', [''import'', ''export'', ''sync'', ''migrate'', ''transfer'', ''data'']),
      (''notification'', [''notify'', ''alert'', ''email'', ''sms'', ''notification'',
                         ''remind''])]"

text \<open>
  The loop over the entries with its \<open>break\<close>: \<open>detectedType\<close> starts as
  \<open>general\<close> and becomes the first type one of whose keywords the description includes.
\<close>

fun detect_type :: "(string \<times> string list) list \<Rightarrow> string \<Rightarrow> string" where
  "detect_type [] lowerDesc = ''general''"
| "detect_type ((ty, keywords) # rest) lowerDesc =
     (if list_ex (\<lambda>kw. str_includes lowerDesc kw) keywords then ty
      else detect_type rest lowerDesc)"

record analysis =
  analysis_type :: string
  analysis_description :: string

definition analyzeDescription :: "string \<Rightarrow> analysis" where
  "analyzeDescription description =
     (let lowerDesc = toLowerCase description
      in \<lparr>analysis_type = detect_type types lowerDesc, analysis_description = lowerDesc\<rparr>)"

definition ecommerce_template :: "step list" where
  "ecommerce_template =
     [\<lparr>step_id = 1, step_name = ''Browse Products'',
        step_description = ''User browses available products'',
        step_type = ''user_action''\<rparr>,
      \<lparr>step_id = 2, step_name = ''Add to Cart'',
        step_description = ''User adds selected items to shopping cart'',
        step_type = ''user_action''\<rparr>,
      \<lparr>step_id = 3, step_name = ''Validate Cart'',
        step_description = ''System validates cart items and availability'',
        step_type = ''system_check''\<rparr>,
      \<lparr>step_id = 4, step_name = ''Enter Shipping Info'',
        step_description = ''User provides shipping address'',
        step_type = ''user_input''\<rparr>,
      \<lparr>step_id = 5, step_name = ''Select Payment Method'',
        step_description = ''User chooses payment option'',
        step_type = ''user_action''\<rparr>,
      \<lparr>step_id = 6, step_name = ''Process Payment'',
        step_description = ''System processes the payment transaction'',
        step_type = ''system_action''\<rparr>,
      \<lparr>step_id = 7, step_name = ''Payment Verification'',
        step_description = ''Verify payment success or failure'',
        step_type = ''decision''\<rparr>,
      \<lparr>step_id = 8, step_name = ''Generate Order'',
        step_description = ''System creates order record'',
        step_type = ''system_action''\<rparr>,
      \<lparr>step_id = 9, step_name = ''Send Confirmation'',
        step_description = ''Email confirmation sent to user'',
        step_type = ''notification''\<rparr>,
      \<lparr>step_id = 10, step_name = ''Update Inventory'',
        step_description = ''System updates product inventory'',
        step_type = ''system_action''\<rparr>]"

definition auth_template :: "step list" where
  "auth_template =
     [\<lparr>step_id = 1, step_name = ''Enter Credentials'',
        step_description = ''User enters username/email and password'',
        step_type = ''user_input''\<rparr>,
      \<lparr>step_id = 2, step_name = ''Validate Input'',
        step_description = ''System validates input format'',
        step_type = ''system_check''\<rparr>,
      \<lparr>step_id = 3, step_name = ''Check User Exists'',
        step_description = ''Database lookup for user record'',
        step_type = ''database_query''\<rparr>,
      \<lparr>step_id = 4, step_name = ''Verify Password'',
        step_description = ''Compare password hash'',
        step_type = ''system_check''\<rparr>,
      \<lparr>step_id = 5, step_name = ''Authentication Decision'',
        step_description = ''Determine if credentials are valid'',
        step_type = ''decision''\<rparr>,
      \<lparr>step_id = 6, step_name = ''Generate Session'',
        step_description = ''Create session token or JWT'',
        step_type = ''system_action''\<rparr>,
      \<lparr>step_id = 7, step_name = ''Log Authentication'',
        step_description = ''Record login attempt for security'',
        step_type = ''logging''\<rparr>,
      \<lparr>step_id = 8, step_name = ''Redirect User'',
        step_description = ''Send user to dashboard or home'',
        step_type = ''navigation''\<rparr>]"

definition booking_template :: "step list" where
  "booking_template =
     [\<lparr>step_id = 1, step_name = ''Select Service'',
        step_description = ''User chooses the service to book'',
        step_type = ''user_action''\<rparr>,
      \<lparr>step_id = 2, step_name = ''Check Availability'',
        step_description = ''System checks available time slots'',
        step_type = ''system_check''\<rparr>,
      \<lparr>step_id = 3, step_name = ''Display Slots'',
        step_description = ''Show available dates and times'',
        step_type = ''display''\<rparr>,
      \<lparr>step_id = 4, step_name = ''Select Time Slot'',
        step_description = ''User picks preferred date and time'',
        step_type = ''user_action''\<rparr>,
      \<lparr>step_id = 5, step_name = ''Enter Details'',
        step_description = ''User provides contact and booking details'',
        step_type = ''user_input''\<rparr>,
      \<lparr>step_id = 6, step_name = ''Validate Booking'',
        step_description = ''System validates the booking request'',
        step_type = ''system_check''\<rparr>,
      \<lparr>step_id = 7, step_name = ''Create Reservation'',
        step_description = ''System creates the booking record'',
        step_type = ''database_write''\<rparr>,
      \<lparr>step_id = 8, step_name = ''Send Confirmation'',
        step_description = ''Email/SMS confirmation sent'',
        step_type = ''notification''\<rparr>,
      \<lparr>step_id = 9, step_name = ''Add to Calendar'',
        step_description = ''Optional calendar integration'',
        step_type = ''integration''\<rparr>]"

definition support_template :: "step list" where
  "support_template =
     [\<lparr>step_id = 1, step_name = ''Open Ticket Form'',
        step_description = ''User accesses support request form'',
        step_type = ''navigation''\<rparr>,
      \<lparr>step_id = 2, step_name = ''Select Category'',
        step_description = ''User chooses issue category'',
        step_type = ''user_action''\<rparr>,
      \<lparr>step_id = 3, step_name = ''Describe Issue'',
        step_description = ''User describes the problem in detail'',
        step_type = ''user_input''\<rparr>,
      \<lparr>step_id = 4, step_name = ''Attach Files'',
        step_description = ''User uploads supporting documents'',
        step_type = ''user_action''\<rparr>,
      \<lparr>step_id = 5, step_name = ''Auto-Categorize'',
        step_description = ''AI analyzes and tags the ticket'',
        step_type = ''ai_process''\<rparr>,
      \<lparr>step_id = 6, step_name = ''Priority Assignment'',
        step_description = ''System assigns priority level'',
        step_type = ''system_action''\<rparr>,
      \<lparr>step_id = 7, step_name = ''Route to Agent'',
        step_description = ''Ticket assigned to appropriate agent'',
        step_type = ''system_action''\<rparr>,
      \<lparr>step_id = 8, step_name = ''Notify User'',
        step_description = ''Confirmation sent with ticket number'',
        step_type = ''notification''\<rparr>,
      \<lparr>step_id = 9, step_name = ''Notify Agent'',
        step_description = ''Agent receives new ticket alert'',
        step_type = ''notification''\<rparr>]"

definition content_template :: "step list" where
  "content_template =
     [\<lparr>step_id = 1, step_name = ''Create Draft'',
        step_description = ''User starts new content draft'',
        step_type = ''user_action''\<rparr>,
      \<lparr>step_id = 2, step_name = ''Write Content'',
        step_description = ''User writes the main content'',
        step_type = ''user_input''\<rparr>,
      \<lparr>step_id = 3, step_name = ''Add Media'',
        step_description = ''User uploads images or videos'',
        step_type = ''user_action''\<rparr>,
      \<lparr>step_id = 4, step_name = ''Set Metadata'',
        step_description = ''User adds title, tags, category'',
        step_type = ''user_input''\<rparr>,
      \<lparr>step_id = 5, step_name = ''Preview Content'',
        step_description = ''System renders preview'',
        step_type = ''display''\<rparr>,
      \<lparr>step_id = 6, step_name = ''Content Validation'',
        step_description = ''System checks for required fields'',
        step_type = ''system_check''\<rparr>,
      \<lparr>step_id = 7, step_name = ''Submit for Review'',
        step_description = ''Content sent for approval'',
        step_type = ''workflow_action''\<rparr>,
      \<lparr>step_id = 8, step_name = ''Review Decision'',
        step_description = ''Reviewer approves or requests changes'',
        step_type = ''decision''\<rparr>,
      \<lparr>step_id = 9, step_name = ''Publish Content'',
        step_description = ''Content goes live'',
        step_type = ''system_action''\<rparr>,
      \<lparr>step_id = 10, step_name = ''Notify Subscribers'',
        step_description = ''Followers notified of new content'',
        step_type = ''notification''\<rparr>]"

definition workflow_template :: "step list" where
  "workflow_template =
     [\<lparr>step_id = 1, step_name = ''Task Creation'',
        step_description = ''New task or request is created'',
        step_type = ''trigger''\<rparr>,
      \<lparr>step_id = 2, step_name = ''Initial Review'',
        step_description = ''First level review of the request'',
        step_type = ''review''\<rparr>,
      \<lparr>step_id = 3, step_name = ''Completeness Check'',
        step_description = ''Verify all required info is present'',
        step_type = ''system_check''\<rparr>,
      \<lparr>step_id = 4, step_name = ''Assign Reviewer'',
        step_description = ''Route to appropriate reviewer'',
        step_type = ''system_action''\<rparr>,
      \<lparr>step_id = 5, step_name = ''Review Process'',
        step_description = ''Reviewer examines the request'',
        step_type = ''user_action''\<rparr>,
      \<lparr>step_id = 6, step_name = ''Approval Decision'',
        step_description = ''Approve, reject, or request changes'',
        step_type = ''decision''\<rparr>,
      \<lparr>step_id = 7, step_name = ''Handle Rejection'',
        step_description = ''Process rejection with feedback'',
        step_type = ''conditional''\<rparr>,
      \<lparr>step_id = 8, step_name = ''Execute Approval'',
        step_description = ''Perform the approved action'',
        step_type = ''system_action''\<rparr>,
      \<lparr>step_id = 9, step_name = ''Audit Log'',
        step_description = ''Record the complete workflow trail'',
        step_type = ''logging''\<rparr>,
      \<lparr>step_id = 10, step_name = ''Notify Stakeholders'',
        step_description = ''Inform all parties of outcome'',
        step_type = ''notification''\<rparr>]"

definition data_template :: "step list" where
  "data_template =
     [\<lparr>step_id = 1, step_name = ''Select Source'',
        step_description = ''Choose data source for operation'',
        step_type = ''user_action''\<rparr>,
      \<lparr>step_id = 2, step_name = ''Configure Mapping'',
        step_description = ''Define field mappings'',
        step_type = ''user_input''\<rparr>,
      \<lparr>step_id = 3, step_name = ''Validate Configuration'',
        step_description = ''System checks configuration validity'',
        step_type = ''system_check''\<rparr>,
      \<lparr>step_id = 4, step_name = ''Preview Data'',
        step_description = ''Show sample of data to be processed'',
        step_type = ''display''\<rparr>,
      \<lparr>step_id = 5, step_name = ''Confirm Operation'',
        step_description = ''User confirms to proceed'',
        step_type = ''user_action''\<rparr>,
      \<lparr>step_id = 6, step_name = ''Extract Data'',
        step_description = ''Read data from source'',
        step_type = ''data_operation''\<rparr>,
      \<lparr>step_id = 7, step_name = ''Transform Data'',
        step_description = ''Apply transformations and mappings'',
        step_type = ''data_operation''\<rparr>,
      \<lparr>step_id = 8, step_name = ''Validate Data'',
        step_description = ''Check data integrity and format'',
        step_type = ''system_check''\<rparr>,
      \<lparr>step_id = 9, step_name = ''Load Data'',
        step_description = ''Write data to destination'',
        step_type = ''data_operation''\<rparr>,
      \<lparr>step_id = 10, step_name = ''Generate Report'',
        step_description = ''Create operation summary report'',
        step_type = ''system_action''\<rparr>]"

definition notification_template :: "step list" where
  "notification_template =
     [\<lparr>step_id = 1, step_name = ''Trigger Event'',
        step_description = ''Event occurs that requires notification'',
        step_type = ''trigger''\<rparr>,
      \<lparr>step_id = 2, step_name = ''Fetch Recipients'',
        step_description = ''Query notification preferences'',
        step_type = ''database_query''\<rparr>,
      \<lparr>step_id = 3, step_name = ''Filter Recipients'',
        step_description = ''Apply opt-out and preferences'',
        step_type = ''system_check''\<rparr>,
      \<lparr>step_id = 4, step_name = ''Prepare Content'',
        step_description = ''Generate notification content'',
        step_type = ''system_action''\<rparr>,
      \<lparr>step_id = 5, step_name = ''Channel Selection'',
        step_description = ''Determine delivery channel'',
        step_type = ''decision''\<rparr>,
      \<lparr>step_id = 6, step_name = ''Queue Notification'',
        step_description = ''Add to notification queue'',
        step_type = ''system_action''\<rparr>,
      \<lparr>step_id = 7, step_name = ''Send Notification'',
        step_description = ''Dispatch via selected channel'',
        step_type = ''integration''\<rparr>,
      \<lparr>step_id = 8, step_name = ''Track Delivery'',
        step_description = ''Monitor delivery status'',
        step_type = ''logging''\<rparr>,
      \<lparr>step_id = 9, step_name = ''Handle Failures'',
        step_description = ''Retry or escalate failed sends'',
        step_type = ''error_handling''\<rparr>]"

definition general_template :: "step list" where
  "general_template =
     [\<lparr>step_id = 1, step_name = ''Initialize Process'',
        step_description = ''Start the workflow process'',
        step_type = ''trigger''\<rparr>,
      \<lparr>step_id = 2, step_name = ''Gather Input'',
        step_description = ''Collect required information'',
        step_type = ''user_input''\<rparr>,
      \<lparr>step_id = 3, step_name = ''Validate Input'',
        step_description = ''Check input completeness and format'',
        step_type = ''system_check''\<rparr>,
      \<lparr>step_id = 4, step_name = ''Process Request'',
        step_description = ''Execute main business logic'',
        step_type = ''system_action''\<rparr>,
      \<lparr>step_id = 5, step_name = ''Decision Point'',
        step_description = ''Evaluate conditions for next step'',
        step_type = ''decision''\<rparr>,
      \<lparr>step_id = 6, step_name = ''Execute Action'',
        step_description = ''Perform the required action'',
        step_type = ''system_action''\<rparr>,
      \<lparr>step_id = 7, step_name = ''Store Results'',
        step_description = ''Save outcome to database'',
        step_type = ''database_write''\<rparr>,
      \<lparr>step_id = 8, step_name = ''Generate Response'',
        step_description = ''Prepare response for user'',
        step_type = ''system_action''\<rparr>,
      \<lparr>step_id = 9, step_name = ''Send Notifications'',
        step_description = ''Alert relevant parties'',
        step_type = ''notification''\<rparr>,
      \<lparr>step_id = 10, step_name = ''Complete Process'',
        step_description = ''Finalize and close the workflow'',
        step_type = ''end''\<rparr>]"

definition templates :: "(string \<times> step list) list" where
  "templates =
     [(''ecommerce'', ecommerce_template),
      (''auth'', auth_template),
      (''booking'', booking_template),
      (''support'', support_template),
      (''content'', content_template),
      (''workflow'', workflow_template),
      (''data'', data_template),
      (''notification'', notification_template),
      (''general'', general_template)]"
text \<open>\<open>templates[type] || templates.general\<close>; an array is truthy, also an empty one.\<close>

definition generateStepsForType :: "string \<Rightarrow> string \<Rightarrow> step list js_result" where
  "generateStepsForType ty description =
     (case js_get templates ty of
        Own steps \<Rightarrow> Plain steps
      | Inherited k \<Rightarrow> Proto_member k
      | Absent \<Rightarrow> Plain general_template)"

definition summaries :: "(string \<times> string) list" where
  "summaries =
     [(''ecommerce'',
       ''This e-commerce workflow handles the complete purchase journey from product ''
         @ ''browsing to order confirmation. It includes cart management, payment ''
         @ ''processing, and inventory updates to ensure a smooth shopping experience.''),
      (''auth'',
       ''This authentication workflow securely handles user login with input ''
         @ ''validation, credential verification, and session management. It includes ''
         @ ''security logging for audit purposes.''),
      (''booking'',
       ''This booking workflow manages appointment scheduling from service selection ''
         @ ''to confirmation. It includes availability checking, slot selection, and ''
         @ ''calendar integration capabilities.''),
      (''support'',
       ''This customer support workflow handles ticket creation and routing. It uses ''
         @ ''AI-powered categorization and priority assignment to ensure efficient issue ''
         @ ''resolution.''),
      (''content'',
       ''This content management workflow covers the complete publishing lifecycle ''
         @ ''from draft creation to publication. It includes review processes and ''
         @ ''subscriber notifications.''),
      (''workflow'',
       ''This approval workflow manages multi-level review processes with proper ''
         @ ''routing, decision handling, and audit logging for compliance.''),
      (''data'',
       ''This data operation workflow handles ETL (Extract, Transform, Load) processes ''
         @ ''with validation, preview, and comprehensive reporting.''),
      (''notification'',
       ''This notification workflow manages multi-channel message delivery with ''
         @ ''preference handling, delivery tracking, and failure recovery.''),
      (''general'',
       ''This workflow outlines a structured process to accomplish the described ''
         @ ''scenario. It includes input handling, processing logic, and appropriate ''
         @ ''notifications.'')]"
text \<open>\<open>summaries[type] || summaries.general\<close>; none of the summaries is the empty string.\<close>

definition generateSummary :: "string \<Rightarrow> string \<Rightarrow> string js_result" where
  "generateSummary ty description =
     (case js_get summaries ty of
        Own s \<Rightarrow> if s = [] then Plain (the (map_of summaries ''general'')) else Plain s
      | Inherited k \<Rightarrow> Proto_member k
      | Absent \<Rightarrow> Plain (the (map_of summaries ''general'')))"

text \<open>
  What a run reads from outside: the value of \<open>Math.random()\<close>, which only sets the
  length of the simulated delay, and the clock behind \<open>new Date().toISOString()\<close>.
\<close>

record env =
  env_random :: real
  env_now :: string

record metadata =
  detectedType :: string
  generatedAt :: string
  aiProvider :: string

record ai_response =
  ai_workflow :: "step list js_result"
  ai_summary :: "string js_result"
  ai_metadata :: metadata

definition mockAIGenerate :: "env \<Rightarrow> string \<Rightarrow> ai_response" where
  "mockAIGenerate e description =
     (let delay = 50 + env_random e * 100;
          analysis = analyzeDescription description;
          workflow = generateStepsForType (analysis_type analysis) description;
          summary = generateSummary (analysis_type analysis) description
      in \<lparr>ai_workflow = workflow,
          ai_summary = summary,
          ai_metadata = \<lparr>detectedType = analysis_type analysis,
                          generatedAt = env_now e,
                          aiProvider = ''mock''\<rparr>\<rparr>)"

section \<open>Schema generator\<close>

text \<open>
  \<open>Set.prototype.add\<close> on a set kept in insertion order: a member already present
  keeps its place.
\<close>

definition entities_add :: "string \<Rightarrow> string list \<Rightarrow> string list" where
  "entities_add x entities = (if x \<in> set entities then entities else entities @ [x])"

text \<open>One statement \<open>if (cond) entities.add(x);\<close>.\<close>

definition add_if :: "bool \<Rightarrow> string \<Rightarrow> string list \<Rightarrow> string list" where
  "add_if cond x entities = (if cond then entities_add x entities else entities)"

definition step_text :: "step \<Rightarrow> string" where
  "step_text s = toLowerCase (step_name s @ '' '' @ step_description s)"

text \<open>The callback of \<open>workflow.forEach\<close>, as a function of the set so far.\<close>

definition extract_step :: "step \<Rightarrow> string list \<Rightarrow> string list" where
  "extract_step s entities =
     (let text = step_text s;
          e1 = add_if (str_includes text ''user'' \<or> str_includes text ''credential'')
                 ''User'' entities;
          e2 = add_if (str_includes text ''product'' \<or> str_includes text ''item'')
                 ''Product'' e1;
          e3 = add_if (str_includes text ''order'' \<or> str_includes text ''purchase'')
                 ''Order'' e2;
          e4 = add_if (str_includes text ''cart'') ''Cart'' e3;
          e5 = add_if (str_includes text ''payment'') ''Payment'' e4;
          e6 = add_if (str_includes text ''ticket'' \<or> str_includes text ''issue'')
                 ''Ticket'' e5;
          e7 = add_if (str_includes text ''booking'' \<or> str_includes text ''reservation''
                       \<or> str_includes text ''appointment'')
                 ''Booking'' e6;
          e8 = add_if (str_includes text ''content'' \<or> str_includes text ''post''
                       \<or> str_includes text ''article'')
                 ''Content'' e7;
          e9 = add_if (str_includes text ''notification'' \<or> str_includes text ''alert'')
                 ''Notification'' e8;
          e10 = add_if (str_includes text ''session'' \<or> str_includes text ''token'')
                  ''Session'' e9;
          e11 = add_if (str_includes text ''task'' \<or> str_includes text ''workflow'')
                  ''Task'' e10
      in e11)"

definition extractEntities :: "step list \<Rightarrow> string list" where
  "extractEntities workflow =
     (let entities = foldl (\<lambda>acc s. extract_step s acc) [] workflow
      in if length entities = 0 then entities_add ''Record'' entities else entities)"

text \<open>The schemas are JSON values.\<close>

datatype json =
  JNull | JBool bool | JNum real | JStr string | JArr "json list" | JObj "(string \<times> json) list"

definition User_schema :: json where
  "User_schema =
     JObj
      [(''type'', JStr ''object''),
       (''properties'', JObj
        [(''id'', JObj
          [(''type'', JStr ''string''),
           (''format'', JStr ''uuid''),
           (''description'', JStr ''Unique user identifier'')]),
         (''email'', JObj
          [(''type'', JStr ''string''),
           (''format'', JStr ''email''),
           (''description'', JStr ''User email address'')]),
         (''name'', JObj [(''type'', JStr ''string''), (''description'', JStr ''User full name'')]),
         (''role'', JObj
          [(''type'', JStr ''string''),
           (''enum'', JArr [JStr ''user'', JStr ''admin'', JStr ''moderator'']),
           (''description'', JStr ''User role'')]),
         (''created_at'', JObj
          [(''type'', JStr ''string''),
           (''format'', JStr ''date-time''),
           (''description'', JStr ''Account creation timestamp'')]),
         (''updated_at'', JObj
          [(''type'', JStr ''string''),
           (''format'', JStr ''date-time''),
           (''description'', JStr ''Last update timestamp'')])]),
       (''required'', JArr [JStr ''id'', JStr ''email''])]"

definition Product_schema :: json where
  "Product_schema =
     JObj
      [(''type'', JStr ''object''),
       (''properties'', JObj
        [(''id'', JObj
          [(''type'', JStr ''string''),
           (''format'', JStr ''uuid''),
           (''description'', JStr ''Product identifier'')]),
         (''name'', JObj [(''type'', JStr ''string''), (''description'', JStr ''Product name'')]),
         (''description'', JObj [(''type'', JStr ''string''), (''description'', JStr ''Product description'')]),
         (''price'', JObj
          [(''type'', JStr ''number''),
           (''minimum'', JNum 0),
           (''description'', JStr ''Product price'')]),
         (''inventory'', JObj
          [(''type'', JStr ''integer''),
           (''minimum'', JNum 0),
           (''description'', JStr ''Available quantity'')]),
         (''category'', JObj [(''type'', JStr ''string''), (''description'', JStr ''Product category'')])]),
       (''required'', JArr [JStr ''id'', JStr ''name'', JStr ''price''])]"

definition Order_schema :: json where
  "Order_schema =
     JObj
      [(''type'', JStr ''object''),
       (''properties'', JObj
        [(''id'', JObj
          [(''type'', JStr ''string''),
           (''format'', JStr ''uuid''),
           (''description'', JStr ''Order identifier'')]),
         (''user_id'', JObj
          [(''type'', JStr ''string''),
           (''format'', JStr ''uuid''),
           (''description'', JStr ''Customer reference'')]),
         (''items'', JObj
          [(''type'', JStr ''array''),
           (''items'', JObj [(''type'', JStr ''object'')]),
           (''description'', JStr ''Order items'')]),
         (''total'', JObj
          [(''type'', JStr ''number''),
           (''minimum'', JNum 0),
           (''description'', JStr ''Order total'')]),
         (''status'', JObj
          [(''type'', JStr ''string''),
           (''enum'', JArr [JStr ''pending'', JStr ''paid'', JStr ''shipped'', JStr ''delivered'', JStr ''cancelled''])]),
         (''created_at'', JObj [(''type'', JStr ''string''), (''format'', JStr ''date-time'')])]),
       (''required'', JArr [JStr ''id'', JStr ''user_id'', JStr ''items'', JStr ''total'', JStr ''status''])]"

definition Cart_schema :: json where
  "Cart_schema =
     JObj
      [(''type'', JStr ''object''),
       (''properties'', JObj
        [(''id'', JObj
          [(''type'', JStr ''string''),
           (''format'', JStr ''uuid''),
           (''description'', JStr ''Cart identifier'')]),
         (''user_id'', JObj
          [(''type'', JStr ''string''),
           (''format'', JStr ''uuid''),
           (''description'', JStr ''User reference'')]),
         (''items'', JObj
          [(''type'', JStr ''array''),
           (''items'', JObj [(''type'', JStr ''object'')]),
           (''description'', JStr ''Cart items'')]),
         (''subtotal'', JObj
          [(''type'', JStr ''number''),
           (''minimum'', JNum 0),
           (''description'', JStr ''Cart subtotal'')]),
         (''updated_at'', JObj [(''type'', JStr ''string''), (''format'', JStr ''date-time'')])]),
       (''required'', JArr [JStr ''id'', JStr ''items''])]"

definition Payment_schema :: json where
  "Payment_schema =
     JObj
      [(''type'', JStr ''object''),
       (''properties'', JObj
        [(''id'', JObj
          [(''type'', JStr ''string''),
           (''format'', JStr ''uuid''),
           (''description'', JStr ''Payment identifier'')]),
         (''order_id'', JObj
          [(''type'', JStr ''string''),
           (''format'', JStr ''uuid''),
           (''description'', JStr ''Order reference'')]),
         (''amount'', JObj
          [(''type'', JStr ''number''),
           (''minimum'', JNum 0),
           (''description'', JStr ''Payment amount'')]),
         (''method'', JObj
          [(''type'', JStr ''string''),
           (''enum'', JArr [JStr ''card'', JStr ''paypal'', JStr ''bank_transfer''])]),
         (''status'', JObj
          [(''type'', JStr ''string''),
           (''enum'', JArr [JStr ''pending'', JStr ''completed'', JStr ''failed'', JStr ''refunded''])]),
         (''processed_at'', JObj [(''type'', JStr ''string''), (''format'', JStr ''date-time'')])]),
       (''required'', JArr [JStr ''id'', JStr ''order_id'', JStr ''amount'', JStr ''status''])]"

definition Ticket_schema :: json where
  "Ticket_schema =
     JObj
      [(''type'', JStr ''object''),
       (''properties'', JObj
        [(''id'', JObj
          [(''type'', JStr ''string''),
           (''format'', JStr ''uuid''),
           (''description'', JStr ''Ticket identifier'')]),
         (''user_id'', JObj
          [(''type'', JStr ''string''),
           (''format'', JStr ''uuid''),
           (''description'', JStr ''Submitter reference'')]),
         (''subject'', JObj [(''type'', JStr ''string''), (''description'', JStr ''Ticket subject'')]),
         (''description'', JObj [(''type'', JStr ''string''), (''description'', JStr ''Issue description'')]),
         (''category'', JObj [(''type'', JStr ''string''), (''description'', JStr ''Issue category'')]),
         (''priority'', JObj
          [(''type'', JStr ''string''),
           (''enum'', JArr [JStr ''low'', JStr ''medium'', JStr ''high'', JStr ''urgent''])]),
         (''status'', JObj
          [(''type'', JStr ''string''),
           (''enum'', JArr [JStr ''open'', JStr ''in_progress'', JStr ''resolved'', JStr ''closed''])]),
         (''assigned_to'', JObj
          [(''type'', JStr ''string''),
           (''format'', JStr ''uuid''),
           (''description'', JStr ''Agent reference'')]),
         (''created_at'', JObj [(''type'', JStr ''string''), (''format'', JStr ''date-time'')])]),
       (''required'', JArr [JStr ''id'', JStr ''subject'', JStr ''status''])]"

definition Booking_schema :: json where
  "Booking_schema =
     JObj
      [(''type'', JStr ''object''),
       (''properties'', JObj
        [(''id'', JObj
          [(''type'', JStr ''string''),
           (''format'', JStr ''uuid''),
           (''description'', JStr ''Booking identifier'')]),
         (''user_id'', JObj
          [(''type'', JStr ''string''),
           (''format'', JStr ''uuid''),
           (''description'', JStr ''Customer reference'')]),
         (''service'', JObj [(''type'', JStr ''string''), (''description'', JStr ''Service booked'')]),
         (''date'', JObj
          [(''type'', JStr ''string''),
           (''format'', JStr ''date''),
           (''description'', JStr ''Booking date'')]),
         (''time_slot'', JObj [(''type'', JStr ''string''), (''description'', JStr ''Time slot'')]),
         (''status'', JObj
          [(''type'', JStr ''string''),
           (''enum'', JArr [JStr ''confirmed'', JStr ''pending'', JStr ''cancelled'', JStr ''completed''])]),
         (''notes'', JObj [(''type'', JStr ''string''), (''description'', JStr ''Additional notes'')])]),
       (''required'', JArr [JStr ''id'', JStr ''user_id'', JStr ''service'', JStr ''date'', JStr ''status''])]"

definition Content_schema :: json where
  "Content_schema =
     JObj
      [(''type'', JStr ''object''),
       (''properties'', JObj
        [(''id'', JObj
          [(''type'', JStr ''string''),
           (''format'', JStr ''uuid''),
           (''description'', JStr ''Content identifier'')]),
         (''author_id'', JObj
          [(''type'', JStr ''string''),
           (''format'', JStr ''uuid''),
           (''description'', JStr ''Author reference'')]),
         (''title'', JObj [(''type'', JStr ''string''), (''description'', JStr ''Content title'')]),
         (''body'', JObj [(''type'', JStr ''string''), (''description'', JStr ''Content body'')]),
         (''tags'', JObj
          [(''type'', JStr ''array''),
           (''items'', JObj [(''type'', JStr ''string'')]),
           (''description'', JStr ''Content tags'')]),
         (''status'', JObj
          [(''type'', JStr ''string''),
           (''enum'', JArr [JStr ''draft'', JStr ''review'', JStr ''published'', JStr ''archived''])]),
         (''published_at'', JObj [(''type'', JStr ''string''), (''format'', JStr ''date-time'')])]),
       (''required'', JArr [JStr ''id'', JStr ''title'', JStr ''body'', JStr ''status''])]"

definition Notification_schema :: json where
  "Notification_schema =
     JObj
      [(''type'', JStr ''object''),
       (''properties'', JObj
        [(''id'', JObj
          [(''type'', JStr ''string''),
           (''format'', JStr ''uuid''),
           (''description'', JStr ''Notification identifier'')]),
         (''user_id'', JObj
          [(''type'', JStr ''string''),
           (''format'', JStr ''uuid''),
           (''description'', JStr ''Recipient reference'')]),
         (''type'', JObj [(''type'', JStr ''string''), (''description'', JStr ''Notification type'')]),
         (''channel'', JObj
          [(''type'', JStr ''string''),
           (''enum'', JArr [JStr ''email'', JStr ''sms'', JStr ''push'', JStr ''in_app''])]),
         (''content'', JObj [(''type'', JStr ''string''), (''description'', JStr ''Message content'')]),
         (''read'', JObj [(''type'', JStr ''boolean''), (''default'', JBool False)]),
         (''sent_at'', JObj [(''type'', JStr ''string''), (''format'', JStr ''date-time'')])]),
       (''required'', JArr [JStr ''id'', JStr ''user_id'', JStr ''type'', JStr ''content''])]"

definition Session_schema :: json where
  "Session_schema =
     JObj
      [(''type'', JStr ''object''),
       (''properties'', JObj
        [(''id'', JObj
          [(''type'', JStr ''string''),
           (''format'', JStr ''uuid''),
           (''description'', JStr ''Session identifier'')]),
         (''user_id'', JObj
          [(''type'', JStr ''string''),
           (''format'', JStr ''uuid''),
           (''description'', JStr ''User reference'')]),
         (''token'', JObj [(''type'', JStr ''string''), (''description'', JStr ''Session token'')]),
         (''expires_at'', JObj [(''type'', JStr ''string''), (''format'', JStr ''date-time'')]),
         (''created_at'', JObj [(''type'', JStr ''string''), (''format'', JStr ''date-time'')]),
         (''ip_address'', JObj [(''type'', JStr ''string''), (''description'', JStr ''Client IP'')])]),
       (''required'', JArr [JStr ''id'', JStr ''user_id'', JStr ''token'', JStr ''expires_at''])]"

definition Task_schema :: json where
  "Task_schema =
     JObj
      [(''type'', JStr ''object''),
       (''properties'', JObj
        [(''id'', JObj
          [(''type'', JStr ''string''),
           (''format'', JStr ''uuid''),
           (''description'', JStr ''Task identifier'')]),
         (''title'', JObj [(''type'', JStr ''string''), (''description'', JStr ''Task title'')]),
         (''description'', JObj [(''type'', JStr ''string''), (''description'', JStr ''Task description'')]),
         (''assignee_id'', JObj
          [(''type'', JStr ''string''),
           (''format'', JStr ''uuid''),
           (''description'', JStr ''Assignee reference'')]),
         (''status'', JObj
          [(''type'', JStr ''string''),
           (''enum'', JArr [JStr ''pending'', JStr ''in_progress'', JStr ''review'', JStr ''completed''])]),
         (''priority'', JObj
          [(''type'', JStr ''string''),
           (''enum'', JArr [JStr ''low'', JStr ''medium'', JStr ''high''])]),
         (''due_date'', JObj [(''type'', JStr ''string''), (''format'', JStr ''date'')])]),
       (''required'', JArr [JStr ''id'', JStr ''title'', JStr ''status''])]"

definition Record_schema :: json where
  "Record_schema =
     JObj
      [(''type'', JStr ''object''),
       (''properties'', JObj
        [(''id'', JObj
          [(''type'', JStr ''string''),
           (''format'', JStr ''uuid''),
           (''description'', JStr ''Record identifier'')]),
         (''type'', JObj [(''type'', JStr ''string''), (''description'', JStr ''Record type'')]),
         (''data'', JObj [(''type'', JStr ''object''), (''description'', JStr ''Record data'')]),
         (''status'', JObj [(''type'', JStr ''string''), (''description'', JStr ''Record status'')]),
         (''created_at'', JObj [(''type'', JStr ''string''), (''format'', JStr ''date-time'')]),
         (''updated_at'', JObj [(''type'', JStr ''string''), (''format'', JStr ''date-time'')])]),
       (''required'', JArr [JStr ''id'', JStr ''type'', JStr ''data''])]"

definition schemas :: "(string \<times> json) list" where
  "schemas =
     [(''User'', User_schema),
      (''Product'', Product_schema),
      (''Order'', Order_schema),
      (''Cart'', Cart_schema),
      (''Payment'', Payment_schema),
      (''Ticket'', Ticket_schema),
      (''Booking'', Booking_schema),
      (''Content'', Content_schema),
      (''Notification'', Notification_schema),
      (''Session'', Session_schema),
      (''Task'', Task_schema),
      (''Record'', Record_schema)]"
text \<open>\<open>schemas[entity] || schemas.Record\<close>; an object is truthy.\<close>

definition generateEntitySchema :: "string \<Rightarrow> json js_result" where
  "generateEntitySchema entity =
     (case js_get schemas entity of
        Own s \<Rightarrow> Plain s
      | Inherited k \<Rightarrow> Proto_member k
      | Absent \<Rightarrow> Plain Record_schema)"

record relationship =
  rel_from :: string
  rel_to :: string
  rel_type :: string
  rel_description :: string

definition relationshipMap :: "(string \<times> relationship) list" where
  "relationshipMap =
     [(''User-Order'', \<lparr>rel_from = ''User'', rel_to = ''Order'', rel_type = ''one-to-many'',
         rel_description = ''User places orders''\<rparr>),
      (''User-Cart'', \<lparr>rel_from = ''User'', rel_to = ''Cart'', rel_type = ''one-to-one'',
         rel_description = ''User has a cart''\<rparr>),
      (''User-Ticket'', \<lparr>rel_from = ''User'', rel_to = ''Ticket'', rel_type = ''one-to-many'',
         rel_description = ''User creates tickets''\<rparr>),
      (''User-Booking'', \<lparr>rel_from = ''User'', rel_to = ''Booking'', rel_type = ''one-to-many'',
         rel_description = ''User makes bookings''\<rparr>),
      (''User-Content'', \<lparr>rel_from = ''User'', rel_to = ''Content'', rel_type = ''one-to-many'',
         rel_description = ''User creates content''\<rparr>),
      (''User-Session'', \<lparr>rel_from = ''User'', rel_to = ''Session'', rel_type = ''one-to-many'',
         rel_description = ''User has sessions''\<rparr>),
      (''User-Notification'', \<lparr>rel_from = ''User'', rel_to = ''Notification'',
         rel_type = ''one-to-many'', rel_description = ''User receives notifications''\<rparr>),
      (''Order-Payment'', \<lparr>rel_from = ''Order'', rel_to = ''Payment'', rel_type = ''one-to-one'',
         rel_description = ''Order has payment''\<rparr>),
      (''Order-Product'', \<lparr>rel_from = ''Order'', rel_to = ''Product'',
         rel_type = ''many-to-many'', rel_description = ''Order contains products''\<rparr>),
      (''Cart-Product'', \<lparr>rel_from = ''Cart'', rel_to = ''Product'', rel_type = ''many-to-many'',
         rel_description = ''Cart contains products''\<rparr>)]"

text \<open>
  The body of the inner loop: the relationships pushed for the elements at \<open>i\<close> and
  \<open>j\<close>. Both keys hold a hyphen, which no member of \<open>Object.prototype\<close> has in its
  name, so \<open>relationshipMap[key]\<close> is an own property or \<open>undefined\<close>.
\<close>

definition relationship_step :: "string list \<Rightarrow> nat \<Rightarrow> nat \<Rightarrow> relationship list" where
  "relationship_step entityArray i j =
     (let key1 = entityArray ! i @ ''-'' @ entityArray ! j;
          key2 = entityArray ! j @ ''-'' @ entityArray ! i
      in case map_of relationshipMap key1 of
           Some r \<Rightarrow> [r]
         | None \<Rightarrow> (case map_of relationshipMap key2 of Some r \<Rightarrow> [r] | None \<Rightarrow> []))"

text \<open>\<open>for (let j = ...; j < entityArray.length; j++)\<close>, from the index \<open>j\<close> on.\<close>

function relationships_inner :: "string list \<Rightarrow> nat \<Rightarrow> nat \<Rightarrow> relationship list" where
  "relationships_inner entityArray i j =
     (if j < length entityArray
      then relationship_step entityArray i j @ relationships_inner entityArray i (j + 1)
      else [])"
  by pat_completeness auto
termination
  by (relation "measure (\<lambda>(entityArray, i, j). length entityArray - j)") auto

declare relationships_inner.simps [simp del]

text \<open>\<open>for (let i = 0; i < entityArray.length; i++)\<close>, from the index \<open>i\<close> on.\<close>

function relationships_outer :: "string list \<Rightarrow> nat \<Rightarrow> relationship list" where
  "relationships_outer entityArray i =
     (if i < length entityArray
      then relationships_inner entityArray i (i + 1) @ relationships_outer entityArray (i + 1)
      else [])"
  by pat_completeness auto
termination
  by (relation "measure (\<lambda>(entityArray, i). length entityArray - i)") auto

declare relationships_outer.simps [simp del]

record data_model =
  dm_schema :: string
  dm_title :: string
  dm_description :: string
  dm_entities :: "(string \<times> json js_result) list"
  dm_relationships :: "relationship list"

text \<open>
  \<open>dataModel.entities\<close> is written once per element of \<open>entityArray\<close>, whose elements are
  distinct, so the object is the list of the pairs in that order.
\<close>

definition generateDataModel :: "step list \<Rightarrow> string \<Rightarrow> data_model" where
  "generateDataModel workflow description =
     (let entities = extractEntities workflow;
          entityArray = entities
      in \<lparr>dm_schema = ''http://json-schema.org/draft-07/schema#'',
          dm_title = ''Scenario Data Model'',
          dm_description = ''Data model generated for: '' @ take 100 description @ ''...'',
          dm_entities = map (\<lambda>entity. (entity, generateEntitySchema entity)) entityArray,
          dm_relationships = relationships_outer entityArray 0\<rparr>)"

section \<open>Workflow service\<close>

datatype js_error = TypeError

record scenario_result =
  res_workflow :: "step list"
  res_mermaid_diagram :: string
  res_data_model :: data_model
  res_summary :: "string js_result"

text \<open>
  The promise of \<open>generateWorkflow\<close> resolves to the result or rejects with an error.
  A workflow that is not an array but a member of \<open>Object.prototype\<close> has no
  \<open>forEach\<close>, which \<open>extractEntities\<close> calls on it: a TypeError.
\<close>

definition generateWorkflow :: "env \<Rightarrow> string \<Rightarrow> js_error + scenario_result" where
  "generateWorkflow e description =
     (let aiResponse = mockAIGenerate e description
      in case ai_workflow aiResponse of
           Proto_member k \<Rightarrow> Inl TypeError
         | Plain workflow \<Rightarrow>
             (let mermaidDiagram = generateMermaidDiagram (Some workflow);
                  dataModel = generateDataModel workflow description
              in Inr \<lparr>res_workflow = workflow,
                      res_mermaid_diagram = mermaidDiagram,
                      res_data_model = dataModel,
                      res_summary = ai_summary aiResponse\<rparr>))"

section \<open>Scenario controller\<close>

text \<open>
  \<open>req.body\<close> is what the body parser left on the request: \<open>None\<close> when it is
  \<open>undefined\<close> (no body was parsed), and otherwise a JSON value; an object is the list
  of its properties, each name once.
\<close>

record request =
  req_body :: "json option"

text \<open>
  \<open>const { description } = req.body\<close>. Destructuring \<open>undefined\<close> or \<open>null\<close> throws
  a TypeError. An object gives its property, or \<open>undefined\<close> (here \<open>None\<close>) when it has
  none of that name; an array, a string, a number and a boolean have no property
  \<open>description\<close>.
\<close>

fun destructure_description :: "json option \<Rightarrow> js_error + json option" where
  "destructure_description None = Inl TypeError"
| "destructure_description (Some JNull) = Inl TypeError"
| "destructure_description (Some (JObj kvs)) = Inr (map_of kvs ''description'')"
| "destructure_description (Some v) = Inr None"

fun js_truthy :: "json option \<Rightarrow> bool" where
  "js_truthy None = False"
| "js_truthy (Some JNull) = False"
| "js_truthy (Some (JBool b)) = b"
| "js_truthy (Some (JNum n)) = (n \<noteq> 0)"
| "js_truthy (Some (JStr s)) = (s \<noteq> [])"
| "js_truthy (Some (JArr xs)) = True"
| "js_truthy (Some (JObj kvs)) = True"

fun js_typeof :: "json option \<Rightarrow> string" where
  "js_typeof None = ''undefined''"
| "js_typeof (Some JNull) = ''object''"
| "js_typeof (Some (JBool b)) = ''boolean''"
| "js_typeof (Some (JNum n)) = ''number''"
| "js_typeof (Some (JStr s)) = ''string''"
| "js_typeof (Some (JArr xs)) = ''object''"
| "js_typeof (Some (JObj kvs)) = ''object''"

datatype response_body =
  Error_body string string
| Success_body scenario_result

record response =
  http_status :: nat
  http_body :: response_body

text \<open>The answer of the \<open>catch\<close> block.\<close>

definition generation_failed :: response where
  "generation_failed =
     \<lparr>http_status = 500,
      http_body = Error_body ''Generation failed''
                    ''An error occurred while generating the scenario''\<rparr>"

text \<open>
  The controller returns the response it sends, and with it the arguments of the calls
  of \<open>workflowService.generateWorkflow\<close> it made, in order. \<open>res.json\<close> without
  \<open>res.status\<close> answers 200. An error thrown inside \<open>try\<close>, by the destructuring or
  by the rejected promise of \<open>generateWorkflow\<close>, ends in the \<open>catch\<close> block.
\<close>

definition generateScenario :: "env \<Rightarrow> request \<Rightarrow> string list \<times> response" where
  "generateScenario e req =
     (case destructure_description (req_body req) of
        Inl err \<Rightarrow> ([], generation_failed)
      | Inr description \<Rightarrow>
          if \<not> js_truthy description \<or> js_typeof description \<noteq> ''string''
          then ([], \<lparr>http_status = 400,
                     http_body = Error_body ''Invalid input''
                                   ''Please provide a valid scenario description''\<rparr>)
          else (case description of
                  Some (JStr s) \<Rightarrow>
                    if length (trim s) < 10
                    then ([], \<lparr>http_status = 400,
                               http_body = Error_body ''Description too short''
                                 (''Please provide a more detailed scenario description ''
                                  @ ''(at least 10 characters)'')\<rparr>)
                    else (case generateWorkflow e (trim s) of
                            Inr result \<Rightarrow>
                              ([trim s],
                               \<lparr>http_status = 200, http_body = Success_body result\<rparr>)
                          | Inl err \<Rightarrow> ([trim s], generation_failed))
                | _ \<Rightarrow> ([], generation_failed)))"

section \<open>The properties, as the specification words them\<close>

text \<open>
  The edges the specification gives step \<open>i\<close> of a workflow, as lines of the diagram: a
  decision or conditional step has a \<open>Yes\<close> edge to its successor and, if there is a
  step after that one, a dashed \<open>No\<close> edge to it; any other step has the default edge to
  its successor.
\<close>

definition yes_edge :: "step \<Rightarrow> step \<Rightarrow> string" where
  "yes_edge a b = ''  '' @ nodeId (step_id a) @ '' -->|Yes| '' @ nodeId (step_id b)"

definition no_edge :: "step \<Rightarrow> step \<Rightarrow> string" where
  "no_edge a b = ''  '' @ nodeId (step_id a) @ '' -.->|No| '' @ nodeId (step_id b)"

definition default_edge :: "step \<Rightarrow> step \<Rightarrow> string" where
  "default_edge a b = ''  '' @ nodeId (step_id a) @ '' --> '' @ nodeId (step_id b)"

definition edges_of_step :: "step list \<Rightarrow> nat \<Rightarrow> string list" where
  "edges_of_step steps i =
     (if step_type (steps ! i) \<in> {''decision'', ''conditional''}
      then yes_edge (steps ! i) (steps ! (i + 1))
           # (if i + 2 < length steps then [no_edge (steps ! i) (steps ! (i + 2))] else [])
      else [default_edge (steps ! i) (steps ! (i + 1))])"

text \<open>
  A category matches a description when one of its keywords occurs in the description in
  lower case.
\<close>

definition category_matches :: "string list \<Rightarrow> string \<Rightarrow> bool" where
  "category_matches keywords description =
     list_ex (\<lambda>kw. str_includes (toLowerCase description) kw) keywords"

text \<open>
  The keyword rules of entity inference as a table, and what it means for a rule to fire
  on a step: one of its keywords occurs in the step's text.
\<close>

definition entity_rules :: "(string list \<times> string) list" where
  "entity_rules =
     [([''user'', ''credential''], ''User''),
      ([''product'', ''item''], ''Product''),
      ([''order'', ''purchase''], ''Order''),
      ([''cart''], ''Cart''),
      ([''payment''], ''Payment''),
      ([''ticket'', ''issue''], ''Ticket''),
      ([''booking'', ''reservation'', ''appointment''], ''Booking''),
      ([''content'', ''post'', ''article''], ''Content''),
      ([''notification'', ''alert''], ''Notification''),
      ([''session'', ''token''], ''Session''),
      ([''task'', ''workflow''], ''Task'')]"

definition rule_fires :: "string list \<Rightarrow> step \<Rightarrow> bool" where
  "rule_fires kws s = list_ex (\<lambda>kw. str_includes (step_text s) kw) kws"

definition no_rule_fires :: "step list \<Rightarrow> bool" where
  "no_rule_fires steps =
     list_all (\<lambda>s. list_all (\<lambda>r. \<not> rule_fires (fst r) s) entity_rules) steps"

text \<open>
  The unordered pairs of a list, each once, the earlier element first; the probe of the
  relationship table for a pair, the key \<open>A-B\<close> before the key \<open>B-A\<close>; and the two
  endpoints of a relationship as an unordered pair.
\<close>

fun pairs :: "'a list \<Rightarrow> ('a \<times> 'a) list" where
  "pairs [] = []"
| "pairs (x # xs) = map (Pair x) xs @ pairs xs"

definition probe :: "string \<times> string \<Rightarrow> relationship list" where
  "probe p =
     (case map_of relationshipMap (fst p @ ''-'' @ snd p) of
        Some r \<Rightarrow> [r]
      | None \<Rightarrow> (case map_of relationshipMap (snd p @ ''-'' @ fst p) of
                   Some r \<Rightarrow> [r]
                 | None \<Rightarrow> []))"

definition endpoints :: "relationship \<Rightarrow> string set" where
  "endpoints r = {rel_from r, rel_to r}"




section \<open>Example inputs\<close>

definition three_steps :: "step list" where
  "three_steps =
     [\<lparr>step_id = 1, step_name = ''Check'', step_description = ''Is it valid'',
        step_type = ''decision''\<rparr>,
      \<lparr>step_id = 2, step_name = ''Save'', step_description = ''Store it'',
        step_type = ''database_write''\<rparr>,
      \<lparr>step_id = 3, step_name = ''Done'', step_description = ''Finish'',
        step_type = ''end''\<rparr>]"

definition password_step :: step where
  "password_step =
     \<lparr>step_id = 4, step_name = ''Verify Password'',
      step_description = ''Compare password hash'', step_type = ''system_check''\<rparr>"

definition product_step :: step where
  "product_step =
     \<lparr>step_id = 1, step_name = ''Browse Products'',
      step_description = ''User browses available products'', step_type = ''user_action''\<rparr>"

definition order_step :: step where
  "order_step =
     \<lparr>step_id = 2, step_name = ''Generate Order'',
      step_description = ''System creates order record'', step_type = ''system_action''\<rparr>"






section \<open>Facts about strings\<close>

lemma str_includes_sublist: "str_includes s kw = sublist kw s"
  by (induction s) (auto simp: sublist_Cons_right)

lemma sublist_join: "l \<in> set ls \<Longrightarrow> sublist l (join sep ls)"
proof (induction sep ls rule: join.induct)
  case (3 sep l' m ls)
  show ?case
  proof (cases "l = l'")
    case True
    then show ?thesis by (simp add: sublist_append_rightI)
  next
    case False
    with 3 have "sublist l (join sep (m # ls))" by simp
    then obtain ps ss where "join sep (m # ls) = ps @ l @ ss"
      by (auto simp: sublist_def)
    then have "join sep (l' # m # ls) = (l' @ sep @ ps) @ l @ ss" by simp
    then show ?thesis unfolding sublist_def by blast
  qed
qed simp_all

lemma nodeId_small:
  "nodeId 1 = ''step1''" "nodeId 2 = ''step2''" "nodeId 3 = ''step3''"
  by (simp_all add: nodeId_def string_of_nat.simps digit_def)

section \<open>The edges of the diagram\<close>

lemma connections_concat:
  "connections steps i = concat (map (edges_of_step steps) [i..<length steps - 1])"
proof (induction steps i rule: connections.induct)
  case (1 steps i)
  show ?case
  proof (cases "i < length steps - 1")
    case True
    have "connections steps i = edges_of_step steps i @ connections steps (i + 1)"
      using True
      by (subst connections.simps)
         (simp add: edges_of_step_def yes_edge_def no_edge_def default_edge_def Let_def)
    then show ?thesis
      using True 1 by (simp add: upt_conv_Cons)
  next
    case False
    then show ?thesis by (subst connections.simps) simp
  qed
qed

text \<open>
  Claim C4. The connection loop of \<open>generateMermaidDiagram\<close> emits, for the steps
  \<open>0\<close> to \<open>length - 2\<close> in order, exactly the edges of \<open>edges_of_step\<close>: for a decision
  or conditional step the \<open>Yes\<close> edge to step \<open>i + 1\<close> and, when \<open>i + 2 < length\<close>, the
  dashed \<open>No\<close> edge to step \<open>i + 2\<close>; for any other step the single default edge to step
  \<open>i + 1\<close>. For every \<open>i\<close> with \<open>i + 1 < length\<close> these edges are lines of the
  diagram and occur in the string that is returned.
\<close>

theorem generateMermaidDiagram_edges:
  assumes "i + 1 < length steps"
  shows "connections steps 0 = concat (map (edges_of_step steps) [0..<length steps - 1])
    \<and> set (edges_of_step steps i) \<subseteq> set (connections steps 0)
    \<and> set (connections steps 0) \<subseteq> set (diagram_lines steps)
    \<and> (\<forall>l \<in> set (edges_of_step steps i).
          str_includes (generateMermaidDiagram (Some steps)) l)"
proof -
  have i: "i \<in> set [0..<length steps - 1]"
    using assms by simp
  have a: "set (edges_of_step steps i) \<subseteq> set (connections steps 0)"
    unfolding connections_concat using i by (auto simp del: set_upt)
  have b: "set (connections steps 0) \<subseteq> set (diagram_lines steps)"
    by (auto simp: diagram_lines_def)
  have d: "generateMermaidDiagram (Some steps) = join [CHR 0x0A] (diagram_lines steps)"
    using assms by (auto simp: generateMermaidDiagram_def)
  have c: "str_includes (generateMermaidDiagram (Some steps)) l"
    if "l \<in> set (edges_of_step steps i)" for l
    unfolding d str_includes_sublist using that a b by (intro sublist_join) blast
  from a b c show ?thesis
    by (simp add: connections_concat [of steps 0])
qed

theorem generateMermaidDiagram_edges_witness:
  "0 + 1 < length three_steps
   \<and> edges_of_step three_steps 0 = [''  step1 -->|Yes| step2'', ''  step1 -.->|No| step3'']
   \<and> str_includes (generateMermaidDiagram (Some three_steps)) ''  step1 -->|Yes| step2''
   \<and> str_includes (generateMermaidDiagram (Some three_steps)) ''  step1 -.->|No| step3''"
proof -
  have h: "0 + 1 < length three_steps"
    by (simp add: three_steps_def)
  have e: "edges_of_step three_steps 0
           = [''  step1 -->|Yes| step2'', ''  step1 -.->|No| step3'']"
    by (simp add: three_steps_def edges_of_step_def yes_edge_def no_edge_def nodeId_small)
  from generateMermaidDiagram_edges [OF h] have
    "\<forall>l \<in> set (edges_of_step three_steps 0).
       str_includes (generateMermaidDiagram (Some three_steps)) l"
    by (elim conjE)
  then show ?thesis
    unfolding e using h by simp
qed

text \<open>
  Claim C8. On an empty workflow, and on a missing one, \<open>generateMermaidDiagram\<close>
  returns the placeholder diagram: the header line and the single node
  \<open>empty[No workflow steps]\<close>, with no edge arrow in it.
\<close>

theorem generateMermaidDiagram_empty:
  "generateMermaidDiagram (Some []) = ''graph TD'' @ [CHR 0x0A] @ ''  empty[No workflow steps]''
   \<and> generateMermaidDiagram None = generateMermaidDiagram (Some [])
   \<and> str_includes (generateMermaidDiagram (Some [])) ''empty[No workflow steps]''
   \<and> \<not> str_includes (generateMermaidDiagram (Some [])) ''-->''
   \<and> \<not> str_includes (generateMermaidDiagram (Some [])) ''-.->''
   \<and> \<not> str_includes (generateMermaidDiagram (Some [])) ''--''"
  by (simp add: generateMermaidDiagram_def)

section \<open>Label escaping\<close>

lemma replace_all_absent: "c \<notin> set s \<Longrightarrow> replace_all c r s = s"
  by (induction s) (auto simp: replace_all_def)

lemma set_replace_all:
  "set (replace_all c r s) = (set s - {c}) \<union> (if c \<in> set s then set r else {})"
  by (induction s) (auto simp: replace_all_def)

lemma length_replace_all_pair:
  "length (replace_all c [a, b] s) = length s + count_list s c"
  by (induction s) (auto simp: replace_all_def)

lemma escapeLabel_no_specials:
  "set (escapeLabel s) \<inter> (insert (CHR 0x22) (set ''[]{}()'')) = {}"
  by (auto simp: escapeLabel_def set_replace_all split: if_splits)

lemma escapeLabel_angle:
  "CHR ''>'' \<in> set (escapeLabel s) \<longleftrightarrow> CHR ''>'' \<in> set s"
  "CHR ''<'' \<in> set (escapeLabel s) \<longleftrightarrow> CHR ''<'' \<in> set s"
  by (auto simp: escapeLabel_def set_replace_all split: if_splits)

lemma escapeLabel_inner:
  assumes "set t \<inter> (insert (CHR 0x22) (set ''[]{}()'')) = {}"
  shows "filter (\<lambda>c. c \<notin> set ''[]{}()'') (replace_all (CHR 0x22) [CHR 0x27] t) = t"
proof -
  have q: "replace_all (CHR 0x22) [CHR 0x27] t = t"
    using assms by (intro replace_all_absent) auto
  have f: "filter (\<lambda>c. c \<notin> set ''[]{}()'') t = t"
    using assms by (intro filter_True) auto
  show ?thesis
    unfolding q f ..
qed

lemma escapeLabel_plain:
  assumes "set t \<inter> (insert (CHR 0x22) (set ''[]{}()'')) = {}"
    and "CHR ''>'' \<notin> set t" and "CHR ''<'' \<notin> set t"
  shows "escapeLabel t = t"
  unfolding escapeLabel_def escapeLabel_inner [OF assms(1)]
  using assms(2,3) by (simp add: replace_all_absent)

lemma escapeLabel_length:
  assumes "set t \<inter> (insert (CHR 0x22) (set ''[]{}()'')) = {}"
  shows "length (escapeLabel t)
         = length t + count_list t (CHR ''>'') + count_list t (CHR ''<'')"
proof -
  have c: "count_list (replace_all (CHR ''>'') ''->'' t) (CHR ''<'') = count_list t (CHR ''<'')"
    by (induction t) (auto simp: replace_all_def)
  show ?thesis
    unfolding escapeLabel_def escapeLabel_inner [OF assms]
    by (simp add: length_replace_all_pair c)
qed

lemma escapeLabel_idem_iff:
  "escapeLabel (escapeLabel s) = escapeLabel s
   \<longleftrightarrow> CHR ''>'' \<notin> set s \<and> CHR ''<'' \<notin> set s"
proof
  assume eq: "escapeLabel (escapeLabel s) = escapeLabel s"
  have "length (escapeLabel (escapeLabel s)) =
        length (escapeLabel s) + count_list (escapeLabel s) (CHR ''>'')
          + count_list (escapeLabel s) (CHR ''<'')"
    by (rule escapeLabel_length) (rule escapeLabel_no_specials)
  with eq have "count_list (escapeLabel s) (CHR ''>'') = 0"
    and "count_list (escapeLabel s) (CHR ''<'') = 0"
    by simp_all
  then show "CHR ''>'' \<notin> set s \<and> CHR ''<'' \<notin> set s"
    by (simp add: count_list_0_iff escapeLabel_angle)
next
  assume "CHR ''>'' \<notin> set s \<and> CHR ''<'' \<notin> set s"
  then show "escapeLabel (escapeLabel s) = escapeLabel s"
    by (intro escapeLabel_plain escapeLabel_no_specials) (simp_all add: escapeLabel_angle)
qed

text \<open>
  Claim C5, as stated, fails: escaping is not idempotent. A \<open>>\<close> becomes \<open>->\<close>, whose
  \<open>>\<close> the next pass turns into \<open>->\<close> again.
\<close>

theorem escapeLabel_idempotent_counterexample:
  "escapeLabel (escapeLabel ''a>b'') \<noteq> escapeLabel ''a>b''"
  by (simp add: escapeLabel_def replace_all_def)

text \<open>
  Claim C5, amended. \<open>escapeLabel\<close> maps \<open>test "quoted"\<close> to \<open>test 'quoted'\<close> and
  \<open>test [brackets]\<close> to \<open>test brackets\<close>, and escaping twice equals escaping once
  exactly for the strings that hold neither \<open>>\<close> nor \<open><\<close>.
\<close>

theorem escapeLabel_examples_idempotent:
  "escapeLabel (''test '' @ [CHR 0x22] @ ''quoted'' @ [CHR 0x22])
     = ''test '' @ [CHR 0x27] @ ''quoted'' @ [CHR 0x27]
   \<and> escapeLabel ''test [brackets]'' = ''test brackets''
   \<and> (escapeLabel (escapeLabel s) = escapeLabel s
        \<longleftrightarrow> CHR ''>'' \<notin> set s \<and> CHR ''<'' \<notin> set s)"
proof -
  have "escapeLabel (''test '' @ [CHR 0x22] @ ''quoted'' @ [CHR 0x22])
        = ''test '' @ [CHR 0x27] @ ''quoted'' @ [CHR 0x27]"
    by (simp add: escapeLabel_def replace_all_def)
  moreover have "escapeLabel ''test [brackets]'' = ''test brackets''"
    by (simp add: escapeLabel_def replace_all_def)
  ultimately show ?thesis
    using escapeLabel_idem_iff by simp
qed

theorem escapeLabel_examples_idempotent_witness:
  "escapeLabel (escapeLabel ''Save (draft) [v2]'') = escapeLabel ''Save (draft) [v2]''
   \<and> escapeLabel ''Save (draft) [v2]'' = ''Save draft v2''"
proof -
  have "escapeLabel ''Save (draft) [v2]'' = ''Save draft v2''"
    by (simp add: escapeLabel_def replace_all_def)
  then show ?thesis
    using escapeLabel_examples_idempotent [of "''Save (draft) [v2]''"] by simp
qed

section \<open>Classification\<close>

lemma detect_type_first:
  assumes "i < length ts"
    and "list_ex (str_includes s) (snd (ts ! i))"
    and "\<And>j. j < i \<Longrightarrow> \<not> list_ex (str_includes s) (snd (ts ! j))"
  shows "detect_type ts s = fst (ts ! i)"
  using assms
proof (induction ts arbitrary: i)
  case Nil
  then show ?case by simp
next
  case (Cons t ts)
  obtain ty kws where t: "t = (ty, kws)"
    by (cases t)
  show ?case
  proof (cases i)
    case 0
    with Cons.prems t show ?thesis by simp
  next
    case (Suc k)
    have "\<not> list_ex (str_includes s) kws"
      using Cons.prems(3) [of 0] Suc t by simp
    moreover have "detect_type ts s = fst (ts ! k)"
    proof (rule Cons.IH)
      show "k < length ts" using Cons.prems(1) Suc by simp
      show "list_ex (str_includes s) (snd (ts ! k))" using Cons.prems(2) Suc by simp
      show "\<not> list_ex (str_includes s) (snd (ts ! j))" if "j < k" for j
        using Cons.prems(3) [of "Suc j"] that Suc by simp
    qed
    ultimately show ?thesis
      using t Suc by simp
  qed
qed

lemma detect_type_none:
  assumes "\<And>j. j < length ts \<Longrightarrow> \<not> list_ex (str_includes s) (snd (ts ! j))"
  shows "detect_type ts s = ''general''"
  using assms
proof (induction ts)
  case Nil
  then show ?case by simp
next
  case (Cons t ts)
  obtain ty kws where t: "t = (ty, kws)"
    by (cases t)
  have "\<not> list_ex (str_includes s) kws"
    using Cons.prems [of 0] t by simp
  moreover have "detect_type ts s = ''general''"
  proof (rule Cons.IH)
    show "\<not> list_ex (str_includes s) (snd (ts ! j))" if "j < length ts" for j
      using Cons.prems [of "Suc j"] that by simp
  qed
  ultimately show ?case
    using t by simp
qed

lemma types_names:
  "map fst types = [''ecommerce'', ''auth'', ''booking'', ''support'', ''content'',
                    ''workflow'', ''data'', ''notification'']"
  by (simp add: types_def)

lemma types_ecommerce:
  "types ! 0 = (''ecommerce'', [''shop'', ''cart'', ''buy'', ''purchase'', ''order'',
                               ''payment'', ''checkout'', ''product''])"
  by (simp add: types_def)

text \<open>
  The keywords are in lower case, so a keyword that occurs in the description as it was
  written occurs in the lower-cased description as well.
\<close>

lemma keyword_survives_toLowerCase:
  assumes "toLowerCase kw = kw" and "str_includes d kw"
  shows "str_includes (toLowerCase d) kw"
proof -
  have "sublist (map toLowerCase_unit kw) (map toLowerCase_unit d)"
    using assms(2) unfolding str_includes_sublist by (rule map_mono_sublist)
  then show ?thesis
    using assms(1) by (simp add: str_includes_sublist toLowerCase_def)
qed

lemma ecommerce_keywords_lower:
  "\<forall>kw \<in> set [''shop'', ''cart'', ''buy'', ''purchase'', ''order'', ''payment'',
                  ''checkout'', ''product'']. toLowerCase kw = kw"
  by code_simp

text \<open>
  Claim C1. \<open>analyzeDescription\<close> lower-cases the description and walks the categories
  in the order ecommerce, auth, booking, support, content, workflow, data, notification;
  it returns the first category that matches, that is the category \<open>i\<close> that matches
  while no category before it does. So a description in which an ecommerce keyword
  occurs, in any case or as it is written, is classified ecommerce (no category comes
  before ecommerce), and a description that no category matches is classified general.
\<close>

theorem analyzeDescription_first_match:
  "map fst types = [''ecommerce'', ''auth'', ''booking'', ''support'', ''content'',
                    ''workflow'', ''data'', ''notification'']
   \<and> analysis_description (analyzeDescription d) = toLowerCase d
   \<and> (\<forall>i < length types.
         category_matches (snd (types ! i)) d
         \<and> (\<forall>j < i. \<not> category_matches (snd (types ! j)) d)
         \<longrightarrow> analysis_type (analyzeDescription d) = fst (types ! i))
   \<and> (category_matches [''shop'', ''cart'', ''buy'', ''purchase'', ''order'', ''payment'',
                         ''checkout'', ''product''] d
        \<longrightarrow> analysis_type (analyzeDescription d) = ''ecommerce'')
   \<and> (list_ex (\<lambda>kw. str_includes d kw)
         [''shop'', ''cart'', ''buy'', ''purchase'', ''order'', ''payment'', ''checkout'',
          ''product'']
        \<longrightarrow> analysis_type (analyzeDescription d) = ''ecommerce'')
   \<and> ((\<forall>i < length types. \<not> category_matches (snd (types ! i)) d)
        \<longrightarrow> analysis_type (analyzeDescription d) = ''general'')"
proof -
  have first: "analysis_type (analyzeDescription d) = fst (types ! i)"
    if "i < length types" and "category_matches (snd (types ! i)) d"
      and "\<forall>j < i. \<not> category_matches (snd (types ! j)) d" for i
    using that unfolding analyzeDescription_def category_matches_def
    by (simp add: Let_def detect_type_first [of i])
  have eco: "analysis_type (analyzeDescription d) = ''ecommerce''"
    if "category_matches [''shop'', ''cart'', ''buy'', ''purchase'', ''order'', ''payment'',
                          ''checkout'', ''product''] d"
  proof -
    have "analysis_type (analyzeDescription d) = fst (types ! 0)"
      using that by (intro first) (simp_all add: types_ecommerce, simp add: types_def)
    then show ?thesis
      by (simp add: types_ecommerce)
  qed
  have raw: "analysis_type (analyzeDescription d) = ''ecommerce''"
    if "list_ex (\<lambda>kw. str_includes d kw)
          [''shop'', ''cart'', ''buy'', ''purchase'', ''order'', ''payment'', ''checkout'',
           ''product'']"
  proof (rule eco)
    from that obtain kw where
      kw: "kw \<in> set [''shop'', ''cart'', ''buy'', ''purchase'', ''order'', ''payment'',
                      ''checkout'', ''product'']" "str_includes d kw"
      unfolding list_ex_iff by blast
    then have "str_includes (toLowerCase d) kw"
      using ecommerce_keywords_lower keyword_survives_toLowerCase by blast
    with kw(1) show "category_matches [''shop'', ''cart'', ''buy'', ''purchase'', ''order'',
                       ''payment'', ''checkout'', ''product''] d"
      unfolding category_matches_def list_ex_iff by blast
  qed
  have none: "analysis_type (analyzeDescription d) = ''general''"
    if "\<forall>i < length types. \<not> category_matches (snd (types ! i)) d"
    using that unfolding analyzeDescription_def category_matches_def
    by (simp add: Let_def detect_type_none)
  have "analysis_description (analyzeDescription d) = toLowerCase d"
    by (simp add: analyzeDescription_def Let_def)
  with first eco raw none types_names show ?thesis
    by blast
qed

lemma toLowerCase_small:
  "toLowerCase ''I want to Buy shoes'' = ''i want to buy shoes''"
  "toLowerCase ''Hello there'' = ''hello there''"
  "toLowerCase ''Remind me to BOOK a table'' = ''remind me to book a table''"
  by code_simp+

theorem analyzeDescription_first_match_witness:
  "analysis_type (analyzeDescription ''I want to Buy shoes'') = ''ecommerce''
   \<and> analysis_type (analyzeDescription ''Hello there'') = ''general''
   \<and> analysis_type (analyzeDescription ''Remind me to BOOK a table'') = ''booking''"
proof -
  have a: "category_matches [''shop'', ''cart'', ''buy'', ''purchase'', ''order'',
             ''payment'', ''checkout'', ''product''] ''I want to Buy shoes''"
    by (simp add: category_matches_def toLowerCase_small)
  have "\<forall>x \<in> set types. \<not> category_matches (snd x) ''Hello there''"
    by (simp add: category_matches_def toLowerCase_small types_def)
  then have b: "\<forall>i < length types. \<not> category_matches (snd (types ! i)) ''Hello there''"
    by simp
  have c: "(2::nat) < length types
           \<and> category_matches (snd (types ! 2)) ''Remind me to BOOK a table''
           \<and> (\<forall>j < 2. \<not> category_matches (snd (types ! j)) ''Remind me to BOOK a table'')"
    by (simp add: category_matches_def toLowerCase_small types_def less_Suc_eq
          numeral_2_eq_2)
  have "fst (types ! 2) = ''booking''"
    by (simp add: types_def)
  with a b c show ?thesis
    using analyzeDescription_first_match [of "''I want to Buy shoes''"]
      analyzeDescription_first_match [of "''Hello there''"]
      analyzeDescription_first_match [of "''Remind me to BOOK a table''"]
    by metis
qed

section \<open>Step templates\<close>

lemma templates_shape:
  assumes "(ty, steps) \<in> set templates"
  shows "7 \<le> length steps \<and> length steps \<le> 10
         \<and> map (\<lambda>s. unat (step_id s)) steps = [1..<Suc (length steps)]"
proof -
  have u: "[1..<Suc 8] = [1, 2, 3, 4, 5, 6, 7, 8]"
    "[1..<Suc 9] = [1, 2, 3, 4, 5, 6, 7, 8, 9]"
    "[1..<Suc 10] = [1, 2, 3, 4, 5, 6, 7, 8, 9, 10]"
    by (simp_all add: upt_rec)
  have e: "length ecommerce_template = 10 \<and> map (\<lambda>s. unat (step_id s)) ecommerce_template = [1..<Suc 10]"
    unfolding u by (simp add: ecommerce_template_def)
  have a: "length auth_template = 8 \<and> map (\<lambda>s. unat (step_id s)) auth_template = [1..<Suc 8]"
    unfolding u by (simp add: auth_template_def)
  have b: "length booking_template = 9 \<and> map (\<lambda>s. unat (step_id s)) booking_template = [1..<Suc 9]"
    unfolding u by (simp add: booking_template_def)
  have s: "length support_template = 9 \<and> map (\<lambda>s. unat (step_id s)) support_template = [1..<Suc 9]"
    unfolding u by (simp add: support_template_def)
  have c: "length content_template = 10 \<and> map (\<lambda>s. unat (step_id s)) content_template = [1..<Suc 10]"
    unfolding u by (simp add: content_template_def)
  have w: "length workflow_template = 10 \<and> map (\<lambda>s. unat (step_id s)) workflow_template = [1..<Suc 10]"
    unfolding u by (simp add: workflow_template_def)
  have d: "length data_template = 10 \<and> map (\<lambda>s. unat (step_id s)) data_template = [1..<Suc 10]"
    unfolding u by (simp add: data_template_def)
  have n: "length notification_template = 9
           \<and> map (\<lambda>s. unat (step_id s)) notification_template = [1..<Suc 9]"
    unfolding u by (simp add: notification_template_def)
  have g: "length general_template = 10 \<and> map (\<lambda>s. unat (step_id s)) general_template = [1..<Suc 10]"
    unfolding u by (simp add: general_template_def)
  from assms consider "steps = ecommerce_template" | "steps = auth_template"
    | "steps = booking_template" | "steps = support_template" | "steps = content_template"
    | "steps = workflow_template" | "steps = data_template"
    | "steps = notification_template" | "steps = general_template"
    by (auto simp: templates_def)
  then show ?thesis
    using e a b s c w d n g by cases simp_all
qed

lemma general_in_templates: "(''general'', general_template) \<in> set templates"
  by (simp add: templates_def)

text \<open>
  For every name that is not the name of a member of \<open>Object.prototype\<close> the result is
  a template of the table, of 7 to 10 steps with the ids 1, 2, ... in order.
\<close>

lemma generateStepsForType_template:
  assumes "ty \<notin> set object_prototype_members"
  shows "\<exists>steps. generateStepsForType ty d = Plain steps
           \<and> 7 \<le> length steps \<and> length steps \<le> 10
           \<and> map (\<lambda>s. unat (step_id s)) steps = [1..<Suc (length steps)]"
proof (cases "map_of templates ty")
  case None
  with assms have "generateStepsForType ty d = Plain general_template"
    by (simp add: generateStepsForType_def js_get_def)
  then show ?thesis
    using templates_shape [OF general_in_templates] by simp
next
  case (Some steps)
  then have "generateStepsForType ty d = Plain steps"
    by (simp add: generateStepsForType_def js_get_def)
  moreover have "(ty, steps) \<in> set templates"
    using Some by (rule map_of_SomeD)
  ultimately show ?thesis
    using templates_shape by simp
qed

text \<open>
  Claim C2 fails on the code for a category named like a member of \<open>Object.prototype\<close>:
  \<open>templates['constructor']\<close> is the inherited function \<open>Object\<close>, which is truthy, so
  the fallback to the general template is not taken and no step sequence is returned.
\<close>

theorem generateStepsForType_constructor:
  "generateStepsForType ''constructor'' d = Proto_member ''constructor''
   \<and> map_of templates ''constructor'' = None"
  by (simp add: generateStepsForType_def js_get_def templates_def
        object_prototype_members_def)

section \<open>Entity inference\<close>

lemma in_entities_add: "x \<in> set (entities_add y es) \<longleftrightarrow> x = y \<or> x \<in> set es"
  by (auto simp: entities_add_def)

lemma in_add_if: "x \<in> set (add_if c y es) \<longleftrightarrow> (c \<and> x = y) \<or> x \<in> set es"
  by (auto simp: add_if_def in_entities_add)

lemma distinct_add_if: "distinct es \<Longrightarrow> distinct (add_if c y es)"
  by (simp add: add_if_def entities_add_def)

text \<open>The statements of the callback apply the rules of the table in order.\<close>

lemma extract_step_rules:
  "extract_step s es
   = foldl (\<lambda>acc r. add_if (rule_fires (fst r) s) (snd r) acc) es entity_rules"
  by (simp add: extract_step_def Let_def entity_rules_def rule_fires_def)

lemma in_foldl_add_if:
  "x \<in> set (foldl (\<lambda>acc r. add_if (P r) (f r) acc) es rs)
   \<longleftrightarrow> x \<in> set es \<or> (\<exists>r \<in> set rs. f r = x \<and> P r)"
  by (induction rs arbitrary: es) (auto simp: in_add_if)

lemma distinct_foldl_add_if:
  "distinct es \<Longrightarrow> distinct (foldl (\<lambda>acc r. add_if (P r) (f r) acc) es rs)"
  by (induction rs arbitrary: es) (simp_all add: distinct_add_if)

lemma in_extract_step:
  "x \<in> set (extract_step s es)
   \<longleftrightarrow> x \<in> set es \<or> (\<exists>r \<in> set entity_rules. snd r = x \<and> rule_fires (fst r) s)"
  unfolding extract_step_rules by (rule in_foldl_add_if)

lemma distinct_extract_step: "distinct es \<Longrightarrow> distinct (extract_step s es)"
  unfolding extract_step_rules by (rule distinct_foldl_add_if)

lemma in_foldl_extract_step:
  "x \<in> set (foldl (\<lambda>acc s. extract_step s acc) es w)
   \<longleftrightarrow> x \<in> set es
       \<or> (\<exists>s \<in> set w. \<exists>r \<in> set entity_rules. snd r = x \<and> rule_fires (fst r) s)"
  by (induction w arbitrary: es) (auto simp: in_extract_step)

lemma distinct_foldl_extract_step:
  "distinct es \<Longrightarrow> distinct (foldl (\<lambda>acc s. extract_step s acc) es w)"
  by (induction w arbitrary: es) (simp_all add: distinct_extract_step)

lemma foldl_extract_step_empty:
  "foldl (\<lambda>acc s. extract_step s acc) [] w = [] \<longleftrightarrow> no_rule_fires w"
proof -
  have "foldl (\<lambda>acc s. extract_step s acc) [] w = []
        \<longleftrightarrow> (\<forall>x. x \<notin> set (foldl (\<lambda>acc s. extract_step s acc) [] w))"
    by (metis empty_iff empty_set list.set_intros(1) neq_Nil_conv)
  also have "\<dots> \<longleftrightarrow> no_rule_fires w"
    unfolding in_foldl_extract_step no_rule_fires_def
    by (auto simp: list_all_iff)
  finally show ?thesis .
qed

lemma extractEntities_cases:
  "(no_rule_fires w \<and> extractEntities w = [''Record''])
   \<or> (\<not> no_rule_fires w
       \<and> extractEntities w = foldl (\<lambda>acc s. extract_step s acc) [] w
       \<and> extractEntities w \<noteq> [])"
  using foldl_extract_step_empty [of w]
  by (auto simp: extractEntities_def Let_def entities_add_def)

lemma Record_not_a_rule: "\<forall>r \<in> set entity_rules. snd r \<noteq> ''Record''"
  by (simp add: entity_rules_def)

lemma in_extractEntities:
  assumes "x \<noteq> ''Record''"
  shows "x \<in> set (extractEntities w)
         \<longleftrightarrow> (\<exists>s \<in> set w. \<exists>r \<in> set entity_rules. snd r = x \<and> rule_fires (fst r) s)"
proof (cases "no_rule_fires w")
  case True
  then have "extractEntities w = [''Record'']"
    using extractEntities_cases [of w] by blast
  moreover have "\<not> (\<exists>s \<in> set w. \<exists>r \<in> set entity_rules. snd r = x \<and> rule_fires (fst r) s)"
    using True by (auto simp: no_rule_fires_def list_all_iff)
  ultimately show ?thesis
    using assms by simp
next
  case False
  then have "extractEntities w = foldl (\<lambda>acc s. extract_step s acc) [] w"
    using extractEntities_cases [of w] by blast
  then show ?thesis
    by (simp add: in_foldl_extract_step)
qed

lemma distinct_extractEntities: "distinct (extractEntities w)"
  using extractEntities_cases [of w] distinct_foldl_extract_step [of "[]" w]
  by auto

lemma step_text_examples:
  "step_text password_step = ''verify password compare password hash''"
  "step_text product_step = ''browse products user browses available products''"
  by code_simp+

text \<open>
  Claim C3, as stated, fails: \<open>password\<close> is not a keyword of the User rule, whose keywords
  are \<open>user\<close> and \<open>credential\<close>. The step "Verify Password / Compare password hash" of
  the auth template holds \<open>password\<close>, and no rule fires on it.
\<close>

theorem extractEntities_password_counterexample:
  "str_includes (step_text password_step) ''password''
   \<and> ''User'' \<notin> set (extractEntities [password_step])
   \<and> extractEntities [password_step] = [''Record'']"
proof -
  have "extract_step password_step [] = []"
    unfolding extract_step_def Let_def step_text_examples by (simp add: add_if_def)
  then show ?thesis
    by (simp add: step_text_examples extractEntities_def entities_add_def)
qed

text \<open>
  Claim C3, amended. If the text of some step (name, a space, description, in lower case)
  holds \<open>user\<close> or \<open>credential\<close>, the result includes \<open>User\<close>; if it holds \<open>product\<close>
  (or \<open>item\<close>), the result includes \<open>Product\<close>; the result is never empty, and is the
  single entity \<open>Record\<close> when no rule fires on any step.
\<close>

theorem extractEntities_keywords:
  "((\<exists>s \<in> set w. str_includes (step_text s) ''user''
                  \<or> str_includes (step_text s) ''credential'')
      \<longrightarrow> ''User'' \<in> set (extractEntities w))
   \<and> ((\<exists>s \<in> set w. str_includes (step_text s) ''product''
                     \<or> str_includes (step_text s) ''item'')
      \<longrightarrow> ''Product'' \<in> set (extractEntities w))
   \<and> extractEntities w \<noteq> []
   \<and> (no_rule_fires w \<longrightarrow> extractEntities w = [''Record''])"
proof -
  have u: "([''user'', ''credential''], ''User'') \<in> set entity_rules"
    and p: "([''product'', ''item''], ''Product'') \<in> set entity_rules"
    by (simp_all add: entity_rules_def)
  have "''User'' \<in> set (extractEntities w)"
    if "\<exists>s \<in> set w. str_includes (step_text s) ''user''
                     \<or> str_includes (step_text s) ''credential''"
  proof -
    from that obtain s where "s \<in> set w" "rule_fires [''user'', ''credential''] s"
      by (auto simp: rule_fires_def)
    with u show ?thesis
      by (subst in_extractEntities) force+
  qed
  moreover have "''Product'' \<in> set (extractEntities w)"
    if "\<exists>s \<in> set w. str_includes (step_text s) ''product''
                     \<or> str_includes (step_text s) ''item''"
  proof -
    from that obtain s where "s \<in> set w" "rule_fires [''product'', ''item''] s"
      by (auto simp: rule_fires_def)
    with p show ?thesis
      by (subst in_extractEntities) force+
  qed
  moreover have "extractEntities w \<noteq> []"
    using extractEntities_cases [of w] by auto
  moreover have "extractEntities w = [''Record'']" if "no_rule_fires w"
    using that extractEntities_cases [of w] by blast
  ultimately show ?thesis
    by blast
qed

theorem extractEntities_keywords_witness:
  "''User'' \<in> set (extractEntities [product_step])
   \<and> ''Product'' \<in> set (extractEntities [product_step])
   \<and> extractEntities [password_step] = [''Record'']"
proof -
  have a: "\<exists>s \<in> set [product_step]. str_includes (step_text s) ''user''
                                     \<or> str_includes (step_text s) ''credential''"
    by (simp add: step_text_examples)
  have b: "\<exists>s \<in> set [product_step]. str_includes (step_text s) ''product''
                                     \<or> str_includes (step_text s) ''item''"
    by (simp add: step_text_examples)
  have c: "no_rule_fires [password_step]"
    by (simp add: no_rule_fires_def rule_fires_def entity_rules_def step_text_examples)
  from a b c show ?thesis
    using extractEntities_keywords [of "[product_step]"]
      extractEntities_keywords [of "[password_step]"]
    by blast
qed

text \<open>
  Claim C10. \<open>Record\<close> is in the result of \<open>extractEntities\<close> if and only if no keyword
  rule fired on any step, and then the result is exactly \<open>Record\<close> alone.
\<close>

theorem extractEntities_Record_exclusive:
  "(''Record'' \<in> set (extractEntities w) \<longleftrightarrow> no_rule_fires w)
   \<and> (''Record'' \<in> set (extractEntities w) \<longrightarrow> extractEntities w = [''Record''])
   \<and> (''Record'' \<in> set (extractEntities w)
        \<longrightarrow> (\<forall>x \<in> set (extractEntities w). x = ''Record''))"
proof (cases "no_rule_fires w")
  case True
  then have "extractEntities w = [''Record'']"
    using extractEntities_cases [of w] by blast
  with True show ?thesis by simp
next
  case False
  then have e: "extractEntities w = foldl (\<lambda>acc s. extract_step s acc) [] w"
    using extractEntities_cases [of w] by blast
  have "''Record'' \<notin> set (extractEntities w)"
    unfolding e in_foldl_extract_step using Record_not_a_rule by auto
  with False show ?thesis by simp
qed

theorem extractEntities_Record_exclusive_witness:
  "no_rule_fires [password_step]
   \<and> ''Record'' \<in> set (extractEntities [password_step])
   \<and> extractEntities [password_step] = [''Record'']
   \<and> \<not> no_rule_fires [product_step]
   \<and> ''Record'' \<notin> set (extractEntities [product_step])"
proof -
  have c: "no_rule_fires [password_step]"
    by (simp add: no_rule_fires_def rule_fires_def entity_rules_def step_text_examples)
  have d: "\<not> no_rule_fires [product_step]"
    by (simp add: no_rule_fires_def rule_fires_def entity_rules_def step_text_examples)
  from c d show ?thesis
    using extractEntities_Record_exclusive [of "[password_step]"]
      extractEntities_Record_exclusive [of "[product_step]"]
    by blast
qed

section \<open>Relationships of the data model\<close>

lemma relationships_inner_probe:
  "relationships_inner arr i j = concat (map (\<lambda>b. probe (arr ! i, b)) (drop j arr))"
proof (induction arr i j rule: relationships_inner.induct)
  case (1 arr i j)
  show ?case
  proof (cases "j < length arr")
    case True
    then have d: "drop j arr = arr ! j # drop (j + 1) arr"
      by (simp add: Cons_nth_drop_Suc)
    have "relationship_step arr i j = probe (arr ! i, arr ! j)"
      by (simp add: relationship_step_def probe_def Let_def split: option.splits)
    with True 1 show ?thesis
      unfolding d by (subst relationships_inner.simps) simp
  next
    case False
    then show ?thesis
      by (subst relationships_inner.simps) simp
  qed
qed

lemma relationships_outer_pairs:
  "relationships_outer arr i = concat (map probe (pairs (drop i arr)))"
proof (induction arr i rule: relationships_outer.induct)
  case (1 arr i)
  show ?case
  proof (cases "i < length arr")
    case True
    then have d: "drop i arr = arr ! i # drop (i + 1) arr"
      by (simp add: Cons_nth_drop_Suc)
    have "map probe (map (Pair (arr ! i)) (drop (i + 1) arr))
          = map (\<lambda>b. probe (arr ! i, b)) (drop (i + 1) arr)"
      by simp
    with True 1 show ?thesis
      unfolding d
      by (subst relationships_outer.simps) (simp add: relationships_inner_probe comp_def)
  next
    case False
    then show ?thesis
      by (subst relationships_outer.simps) simp
  qed
qed

lemma hyphen_split:
  assumes "CHR ''-'' \<notin> set a" and "CHR ''-'' \<notin> set a'"
    and "a @ ''-'' @ b = a' @ ''-'' @ b'"
  shows "a = a' \<and> b = b'"
proof -
  have t: "takeWhile (\<lambda>c. c \<noteq> CHR ''-'') (x @ ''-'' @ y) = x" if "CHR ''-'' \<notin> set x" for x y
    using that by (induction x) auto
  have "a = a'"
    using t [OF assms(1), of b] t [OF assms(2), of b'] assms(3) by simp
  with assms(3) show ?thesis by simp
qed

lemma relationshipMap_keys:
  "\<forall>kr \<in> set relationshipMap.
     fst kr = rel_from (snd kr) @ ''-'' @ rel_to (snd kr)
     \<and> CHR ''-'' \<notin> set (rel_from (snd kr)) \<and> rel_from (snd kr) \<noteq> rel_to (snd kr)"
  by (simp add: relationshipMap_def)

lemma relationshipMap_lookup:
  assumes "CHR ''-'' \<notin> set a" and "map_of relationshipMap (a @ ''-'' @ b) = Some r"
  shows "rel_from r = a \<and> rel_to r = b \<and> a \<noteq> b \<and> r \<in> snd ` set relationshipMap"
proof -
  have m: "(a @ ''-'' @ b, r) \<in> set relationshipMap"
    using assms(2) by (rule map_of_SomeD)
  with relationshipMap_keys
  have k: "a @ ''-'' @ b = rel_from r @ ''-'' @ rel_to r"
    and h: "CHR ''-'' \<notin> set (rel_from r)" and n: "rel_from r \<noteq> rel_to r"
    by force+
  from hyphen_split [OF assms(1) h k] n m show ?thesis
    by force
qed

lemma probe_result:
  assumes "CHR ''-'' \<notin> set a" and "CHR ''-'' \<notin> set b" and "r \<in> set (probe (a, b))"
  shows "endpoints r = {a, b} \<and> a \<noteq> b \<and> r \<in> snd ` set relationshipMap"
proof (cases "map_of relationshipMap (a @ ''-'' @ b)")
  case (Some r')
  with assms(3) have "r = r'" by (simp add: probe_def)
  with relationshipMap_lookup [OF assms(1) Some] show ?thesis
    by (auto simp: endpoints_def)
next
  case None
  with assms(3) obtain "map_of relationshipMap (b @ ''-'' @ a) = Some r"
    by (auto simp: probe_def split: option.splits)
  with relationshipMap_lookup [OF assms(2)] show ?thesis
    by (auto simp: endpoints_def)
qed

lemma length_probe: "length (probe p) \<le> 1"
  by (simp add: probe_def split: option.splits)

lemma in_pairs: "(a, b) \<in> set (pairs xs) \<Longrightarrow> a \<in> set xs \<and> b \<in> set xs"
  by (induction xs) auto

lemma distinct_pairs_unordered:
  "distinct xs \<Longrightarrow> distinct (map (\<lambda>p. {fst p, snd p}) (pairs xs))"
proof (induction xs)
  case Nil
  then show ?case by simp
next
  case (Cons x xs)
  have "inj_on (\<lambda>b. {x, b}) (set xs)"
    by (auto simp: inj_on_def doubleton_eq_iff)
  with Cons.prems have a: "distinct (map (\<lambda>b. {x, b}) xs)"
    by (simp add: distinct_map)
  have b: "{x, y} \<noteq> {fst p, snd p}" if "p \<in> set (pairs xs)" for p y
  proof -
    from that have "fst p \<in> set xs" "snd p \<in> set xs"
      using in_pairs [of "fst p" "snd p" xs] by simp_all
    with Cons.prems show ?thesis
      by (auto simp: doubleton_eq_iff)
  qed
  from a b Cons show ?case
    by (auto simp: comp_def)
qed

lemma distinct_concat_keyed:
  assumes "distinct (map k ps)"
    and "\<And>p r. p \<in> set ps \<Longrightarrow> r \<in> set (g p) \<Longrightarrow> e r = k p"
    and "\<And>p. p \<in> set ps \<Longrightarrow> length (g p) \<le> 1"
  shows "distinct (map e (concat (map g ps)))"
  using assms
proof (induction ps)
  case Nil
  then show ?case by simp
next
  case (Cons p ps)
  have one: "distinct (map e (g p))"
  proof (cases "g p")
    case (Cons r rs)
    with Cons.prems(3) [of p] have "rs = []" by simp
    with Cons show ?thesis by simp
  qed simp
  have rest: "distinct (map e (concat (map g ps)))"
    using Cons.prems by (intro Cons.IH) auto
  have apart: "e r \<noteq> e r'" if "r \<in> set (g p)" and "q \<in> set ps" and "r' \<in> set (g q)" for r r' q
  proof -
    have "e r = k p" "e r' = k q"
      using that Cons.prems(2) by auto
    moreover have "k p \<noteq> k q"
      using Cons.prems(1) that(2) by auto
    ultimately show ?thesis by simp
  qed
  from one rest apart show ?case
    by (auto simp: image_iff)
qed

lemma extractEntities_names:
  assumes "x \<in> set (extractEntities w)"
  shows "CHR ''-'' \<notin> set x"
proof (cases "x = ''Record''")
  case True
  then show ?thesis by simp
next
  case False
  with assms obtain r where "r \<in> set entity_rules" "snd r = x"
    by (auto simp: in_extractEntities)
  then show ?thesis
    by (auto simp: entity_rules_def)
qed

text \<open>
  Claim C6. The relationships of the data model are the results of probing the
  relationship table for each unordered pair of the inferred entities, the key \<open>A-B\<close>
  before \<open>B-A\<close>, the first match taken and at most one per pair. Every relationship is an
  entry of the table, both its endpoints are inferred entities, and no two relationships
  of the list have the same unordered pair of endpoints.
\<close>

theorem generateDataModel_relationships:
  "dm_relationships (generateDataModel w d) = concat (map probe (pairs (extractEntities w)))
   \<and> map fst (dm_entities (generateDataModel w d)) = extractEntities w
   \<and> distinct (extractEntities w)
   \<and> (\<forall>p. length (probe p) \<le> 1)
   \<and> set (dm_relationships (generateDataModel w d)) \<subseteq> snd ` set relationshipMap
   \<and> (\<forall>r \<in> set (dm_relationships (generateDataModel w d)).
         rel_from r \<in> set (extractEntities w) \<and> rel_to r \<in> set (extractEntities w)
         \<and> rel_from r \<noteq> rel_to r)
   \<and> distinct (map endpoints (dm_relationships (generateDataModel w d)))"
proof -
  let ?E = "extractEntities w"
  let ?R = "dm_relationships (generateDataModel w d)"
  have R: "?R = concat (map probe (pairs ?E))"
    by (simp add: generateDataModel_def Let_def relationships_outer_pairs)
  have pr: "endpoints r = {fst p, snd p} \<and> fst p \<noteq> snd p \<and> r \<in> snd ` set relationshipMap"
    if "p \<in> set (pairs ?E)" and "r \<in> set (probe p)" for p r
  proof -
    from that(1) have "fst p \<in> set ?E" "snd p \<in> set ?E"
      using in_pairs [of "fst p" "snd p" ?E] by simp_all
    then have "CHR ''-'' \<notin> set (fst p)" "CHR ''-'' \<notin> set (snd p)"
      by (simp_all add: extractEntities_names)
    then show ?thesis
      using probe_result [of "fst p" "snd p" r] that(2) by simp
  qed
  have sub: "set ?R \<subseteq> snd ` set relationshipMap"
    unfolding R using pr by auto
  have ends: "rel_from r \<in> set ?E \<and> rel_to r \<in> set ?E \<and> rel_from r \<noteq> rel_to r"
    if "r \<in> set ?R" for r
  proof -
    from that obtain p where p: "p \<in> set (pairs ?E)" "r \<in> set (probe p)"
      unfolding R by auto
    then have e: "endpoints r = {fst p, snd p}" "fst p \<noteq> snd p"
      using pr by simp_all
    from p(1) have "fst p \<in> set ?E" "snd p \<in> set ?E"
      using in_pairs [of "fst p" "snd p" ?E] by simp_all
    with e show ?thesis
      by (auto simp: endpoints_def doubleton_eq_iff)
  qed
  have dist: "distinct (map endpoints ?R)"
    unfolding R
  proof (rule distinct_concat_keyed [where k = "\<lambda>p. {fst p, snd p}"])
    show "distinct (map (\<lambda>p. {fst p, snd p}) (pairs ?E))"
      by (rule distinct_pairs_unordered) (rule distinct_extractEntities)
    show "endpoints r = {fst p, snd p}" if "p \<in> set (pairs ?E)" "r \<in> set (probe p)" for p r
      using pr that by simp
    show "length (probe p) \<le> 1" for p
      by (rule length_probe)
  qed
  have "map fst (dm_entities (generateDataModel w d)) = ?E"
    by (simp add: generateDataModel_def Let_def comp_def)
  with R sub ends dist distinct_extractEntities length_probe show ?thesis
    by blast
qed

lemma step_text_order:
  "step_text order_step = ''generate order system creates order record''"
  by code_simp

lemma extractEntities_example:
  "extractEntities [product_step, order_step] = [''User'', ''Product'', ''Order'']"
proof -
  have a: "extract_step product_step [] = [''User'', ''Product'']"
    unfolding extract_step_def Let_def step_text_examples
    by (simp add: add_if_def entities_add_def)
  have b: "extract_step order_step [''User'', ''Product''] = [''User'', ''Product'', ''Order'']"
    unfolding extract_step_def Let_def step_text_order
    by (simp add: add_if_def entities_add_def)
  show ?thesis
    by (simp add: extractEntities_def a b)
qed

theorem generateDataModel_relationships_witness:
  "dm_relationships (generateDataModel [product_step, order_step] ''An order of products'')
   = [\<lparr>rel_from = ''User'', rel_to = ''Order'', rel_type = ''one-to-many'',
        rel_description = ''User places orders''\<rparr>,
      \<lparr>rel_from = ''Order'', rel_to = ''Product'', rel_type = ''many-to-many'',
        rel_description = ''Order contains products''\<rparr>]"
proof -
  have "concat (map probe (pairs [''User'', ''Product'', ''Order'']))
        = [\<lparr>rel_from = ''User'', rel_to = ''Order'', rel_type = ''one-to-many'',
             rel_description = ''User places orders''\<rparr>,
           \<lparr>rel_from = ''Order'', rel_to = ''Product'', rel_type = ''many-to-many'',
             rel_description = ''Order contains products''\<rparr>]"
    by (simp add: probe_def relationshipMap_def)
  then show ?thesis
    using generateDataModel_relationships
      [of "[product_step, order_step]" "''An order of products''"]
    by (simp add: extractEntities_example)
qed

section \<open>The pipeline\<close>

lemma detect_type_range: "detect_type ts s \<in> insert ''general'' (fst ` set ts)"
  by (induction ts s rule: detect_type.induct) auto

lemma analysis_type_own:
  "analysis_type (analyzeDescription d) \<notin> set object_prototype_members"
proof -
  have "\<forall>ty \<in> insert ''general'' (fst ` set types). ty \<notin> set object_prototype_members"
    by (simp add: types_def object_prototype_members_def)
  moreover have "analysis_type (analyzeDescription d) \<in> insert ''general'' (fst ` set types)"
    using detect_type_range [of types "toLowerCase d"]
    by (simp add: analyzeDescription_def Let_def)
  ultimately show ?thesis
    by blast
qed

lemma generateWorkflow_returns: "\<exists>r. generateWorkflow e d = Inr r"
proof -
  obtain steps where
    "generateStepsForType (analysis_type (analyzeDescription d)) d = Plain steps"
    using generateStepsForType_template [OF analysis_type_own] by blast
  then show ?thesis
    by (simp add: generateWorkflow_def mockAIGenerate_def Let_def)
qed

text \<open>
  Claim C7. Two runs of \<open>generateWorkflow\<close> on the same description give the same
  result, workflow, diagram string, data model and summary, whatever \<open>Math.random()\<close>
  and the clock return in either run, and every run does return a result. The
  generation time is a field of the metadata of the mock response, which
  \<open>generateWorkflow\<close> does not pass on.
\<close>

theorem generateWorkflow_deterministic:
  "generateWorkflow e1 d = generateWorkflow e2 d
   \<and> (\<exists>r. generateWorkflow e1 d = Inr r)
   \<and> ai_workflow (mockAIGenerate e1 d) = ai_workflow (mockAIGenerate e2 d)
   \<and> ai_summary (mockAIGenerate e1 d) = ai_summary (mockAIGenerate e2 d)
   \<and> ai_metadata (mockAIGenerate e1 d)
       = \<lparr>detectedType = analysis_type (analyzeDescription d), generatedAt = env_now e1,
          aiProvider = ''mock''\<rparr>"
proof -
  have "generateWorkflow e1 d = generateWorkflow e2 d"
    by (simp add: generateWorkflow_def mockAIGenerate_def Let_def split: js_result.splits)
  moreover have "\<exists>r. generateWorkflow e1 d = Inr r"
    by (rule generateWorkflow_returns)
  ultimately show ?thesis
    by (simp add: mockAIGenerate_def Let_def)
qed

section \<open>The controller\<close>


text \<open>A description that is not rejected reaches the pipeline once, trimmed.\<close>

lemma generateScenario_accepts:
  assumes "req_body req = Some (JObj kvs)"
    and "map_of kvs ''description'' = Some (JStr s)"
    and "10 \<le> length (trim s)"
  shows "\<exists>r. generateWorkflow e (trim s) = Inr r
           \<and> generateScenario e req
               = ([trim s], \<lparr>http_status = 200, http_body = Success_body r\<rparr>)"
proof -
  obtain r where r: "generateWorkflow e (trim s) = Inr r"
    using generateWorkflow_returns by blast
  have "s \<noteq> []"
    using assms(3) by (auto simp: trim_def)
  with assms r show ?thesis
    by (simp add: generateScenario_def)
qed




end
